theory Spec2Isabelle
  imports Complex_Main "HOL-Library.AList" "HOL-Library.Multiset"
begin

section \<open>The trait inference engine of SocialProfiler\<close>

text \<open>
  A shallow embedding of the Bayesian inference service (the module that declares
  \<^verbatim>\<open>PRIORS\<close>, \<^verbatim>\<open>LIKELIHOOD_MULTIPLIERS\<close>, \<^verbatim>\<open>calculatePosteriors\<close>,
  \<^verbatim>\<open>autocompleteCharacter\<close> and \<^verbatim>\<open>calculateCompatibility\<close>) and of the part of
  \<^verbatim>\<open>types/Character.ts\<close> it reads and writes.

  Conventions of the embedding.
  \<^item> A JavaScript \<^verbatim>\<open>number\<close> is a \<^typ>\<open>real\<close>: arithmetic is the exact arithmetic that
    the IEEE operations round, so an equality proved here is the equality that the program
    meets up to its rounding error. \<^verbatim>\<open>NaN\<close> and the infinities are no reals; they are
    values of \<open>js_number\<close>, the result type of the JavaScript division \<open>js_divide\<close>.
  \<^item> A JavaScript string is a \<^typ>\<open>string\<close>; an enum member is its string value.
  \<^item> A \<^verbatim>\<open>Map<string, number>\<close> is an association list in insertion order;
    \<^verbatim>\<open>Map.set\<close> is \<^const>\<open>AList.update\<close>, which overwrites the value of a key that is
    present and leaves it in place, and appends a key that is absent.
  \<^item> The two module-level tables are passed to the four table-reading functions as
    arguments \<open>P\<close> and \<open>L\<close>; the program always passes \<open>PRIORS\<close> and
    \<open>LIKELIHOOD_MULTIPLIERS\<close>.
\<close>

subsection \<open>Types of \<^verbatim>\<open>types/Character.ts\<close>\<close>

record PriorProbability =
  prior_trait :: string
  prior_category :: string
  prior_probability :: real

record LikelihoodMultiplier =
  lm_evidence :: string
  lm_trait :: string
  lm_multiplier :: real

record EvidenceVariable =
  ev_trait :: string
  ev_probability :: real

text \<open>A posterior map \<^verbatim>\<open>Map<string, number>\<close>, and the map of all categories.\<close>

type_synonym posterior_map = "(string \<times> real) list"

record BayesianInference =
  bi_priors :: "PriorProbability list"
  bi_likelihoods :: "LikelihoodMultiplier list"
  bi_evidence :: "EvidenceVariable list"
  bi_posteriors :: "(string \<times> posterior_map) list"

text \<open>
  \<^verbatim>\<open>InferenceResult.traits\<close> is a plain object filled in the order of the posterior map.
  No trait name of the program is an array index, so the order of its own properties is
  the order of insertion, and it is an association list as well.
\<close>

record InferenceResult =
  category :: string
  traits :: "(string \<times> real) list"
  recommendedTrait :: string
  confidence :: real


subsection \<open>The character profile\<close>

text \<open>
  The part of \<^verbatim>\<open>Character\<close> that the engine reads or writes, with the nesting of the
  source. Every other field of a profile (\<^verbatim>\<open>basicInfo\<close>, \<^verbatim>\<open>routinePatterns\<close>,
  the optional fields of each section, ...) is neither read nor written by the functions
  below and is left out. The fields kept here are all declared as required, so each
  holds a value of its type. The enum-typed fields are strings at run time and the
  functions test them with \<^verbatim>\<open>!field\<close>, which holds of a string exactly when it is
  empty and of a number exactly when it is 0.
\<close>

record Vulnerability =
  vuln_type :: string
  vuln_probability :: real

record MotivationFactor =
  mot_type :: string
  mot_strength :: real

record InsecurityFactor =
  ins_type :: string
  ins_strength :: real

record TrustTrigger =
  trig_type :: string
  trig_effectiveness :: real

record IdentityAnchor =
  anchor_type :: string
  anchor_centrality :: real
  anchor_visibility :: real

record PsychologicalProfile =
  introversionExtroversion :: string
  attachmentStyle :: string
  trustLevel :: string
  likelyVulnerabilities :: "Vulnerability list"

record SocialHierarchyPosition =
  role :: string

record MotivationsInsecurities =
  desires :: "MotivationFactor list"
  fears :: "InsecurityFactor list"

record TrustSignalsVulnerabilityMarkers =
  triggers :: "TrustTrigger list"

record Communication =
  primaryStyle :: string

record DecisionMaking =
  emotionVsLogic :: real
  pacing :: string

record IdentityAnchors =
  coreAnchors :: "IdentityAnchor list"

record Character =
  psychologicalProfile :: PsychologicalProfile
  socialHierarchyPosition :: SocialHierarchyPosition
  motivationsInsecurities :: MotivationsInsecurities
  trustSignalsVulnerabilityMarkers :: TrustSignalsVulnerabilityMarkers
  communication :: Communication
  decisionMaking :: DecisionMaking
  identityAnchors :: IdentityAnchors

subsection \<open>Prior probabilities\<close>

definition PRIORS :: "PriorProbability list" where
  "PRIORS = [
    \<lparr>prior_trait = ''Highly Introverted'', prior_category = ''introversionExtroversion'', prior_probability = 0.10\<rparr>,
    \<lparr>prior_trait = ''Introverted'', prior_category = ''introversionExtroversion'', prior_probability = 0.30\<rparr>,
    \<lparr>prior_trait = ''Ambivert'', prior_category = ''introversionExtroversion'', prior_probability = 0.40\<rparr>,
    \<lparr>prior_trait = ''Extroverted'', prior_category = ''introversionExtroversion'', prior_probability = 0.15\<rparr>,
    \<lparr>prior_trait = ''Highly Extroverted'', prior_category = ''introversionExtroversion'', prior_probability = 0.05\<rparr>,
    \<lparr>prior_trait = ''Secure'', prior_category = ''attachmentStyle'', prior_probability = 0.55\<rparr>,
    \<lparr>prior_trait = ''Anxious'', prior_category = ''attachmentStyle'', prior_probability = 0.20\<rparr>,
    \<lparr>prior_trait = ''Avoidant'', prior_category = ''attachmentStyle'', prior_probability = 0.20\<rparr>,
    \<lparr>prior_trait = ''Fearful-Avoidant'', prior_category = ''attachmentStyle'', prior_probability = 0.05\<rparr>,
    \<lparr>prior_trait = ''Highly Skeptical'', prior_category = ''trustLevel'', prior_probability = 0.05\<rparr>,
    \<lparr>prior_trait = ''Skeptical'', prior_category = ''trustLevel'', prior_probability = 0.25\<rparr>,
    \<lparr>prior_trait = ''Neutral'', prior_category = ''trustLevel'', prior_probability = 0.40\<rparr>,
    \<lparr>prior_trait = ''Trusting'', prior_category = ''trustLevel'', prior_probability = 0.25\<rparr>,
    \<lparr>prior_trait = ''Highly Trusting'', prior_category = ''trustLevel'', prior_probability = 0.05\<rparr>,
    \<lparr>prior_trait = ''Fear of abandonment'', prior_category = ''vulnerabilities'', prior_probability = 0.15\<rparr>,
    \<lparr>prior_trait = ''Need for validation'', prior_category = ''vulnerabilities'', prior_probability = 0.30\<rparr>,
    \<lparr>prior_trait = ''Fear of rejection'', prior_category = ''vulnerabilities'', prior_probability = 0.25\<rparr>,
    \<lparr>prior_trait = ''Overthinking'', prior_category = ''vulnerabilities'', prior_probability = 0.35\<rparr>,
    \<lparr>prior_trait = ''Imposter syndrome'', prior_category = ''vulnerabilities'', prior_probability = 0.20\<rparr>,
    \<lparr>prior_trait = ''Perfectionism'', prior_category = ''vulnerabilities'', prior_probability = 0.15\<rparr>,
    \<lparr>prior_trait = ''Need for control'', prior_category = ''vulnerabilities'', prior_probability = 0.10\<rparr>,
    \<lparr>prior_trait = ''Fear of failure'', prior_category = ''vulnerabilities'', prior_probability = 0.30\<rparr>,
    \<lparr>prior_trait = ''Fear of intimacy'', prior_category = ''vulnerabilities'', prior_probability = 0.15\<rparr>,
    \<lparr>prior_trait = ''Fear of conflict'', prior_category = ''vulnerabilities'', prior_probability = 0.25\<rparr>,
    \<lparr>prior_trait = ''Need for reassurance'', prior_category = ''vulnerabilities'', prior_probability = 0.20\<rparr>,
    \<lparr>prior_trait = ''Fear of being irrelevant'', prior_category = ''vulnerabilities'', prior_probability = 0.15\<rparr>,
    \<lparr>prior_trait = ''Leader'', prior_category = ''socialRole'', prior_probability = 0.10\<rparr>,
    \<lparr>prior_trait = ''Follower'', prior_category = ''socialRole'', prior_probability = 0.50\<rparr>,
    \<lparr>prior_trait = ''Connector'', prior_category = ''socialRole'', prior_probability = 0.15\<rparr>,
    \<lparr>prior_trait = ''Outlier'', prior_category = ''socialRole'', prior_probability = 0.15\<rparr>,
    \<lparr>prior_trait = ''Gatekeeper'', prior_category = ''socialRole'', prior_probability = 0.05\<rparr>,
    \<lparr>prior_trait = ''Mediator'', prior_category = ''socialRole'', prior_probability = 0.05\<rparr>,
    \<lparr>prior_trait = ''Direct'', prior_category = ''communicationStyle'', prior_probability = 0.20\<rparr>,
    \<lparr>prior_trait = ''Indirect'', prior_category = ''communicationStyle'', prior_probability = 0.25\<rparr>,
    \<lparr>prior_trait = ''Reserved'', prior_category = ''communicationStyle'', prior_probability = 0.15\<rparr>,
    \<lparr>prior_trait = ''Analytical'', prior_category = ''communicationStyle'', prior_probability = 0.10\<rparr>,
    \<lparr>prior_trait = ''Emotional'', prior_category = ''communicationStyle'', prior_probability = 0.15\<rparr>,
    \<lparr>prior_trait = ''Functional'', prior_category = ''communicationStyle'', prior_probability = 0.05\<rparr>,
    \<lparr>prior_trait = ''Personal'', prior_category = ''communicationStyle'', prior_probability = 0.05\<rparr>,
    \<lparr>prior_trait = ''Intuitive'', prior_category = ''communicationStyle'', prior_probability = 0.05\<rparr>,
    \<lparr>prior_trait = ''Verbal'', prior_category = ''communicationChannel'', prior_probability = 0.40\<rparr>,
    \<lparr>prior_trait = ''Written'', prior_category = ''communicationChannel'', prior_probability = 0.20\<rparr>,
    \<lparr>prior_trait = ''Non-verbal'', prior_category = ''communicationChannel'', prior_probability = 0.15\<rparr>,
    \<lparr>prior_trait = ''Digital'', prior_category = ''communicationChannel'', prior_probability = 0.25\<rparr>,
    \<lparr>prior_trait = ''Belonging'', prior_category = ''desires'', prior_probability = 0.30\<rparr>,
    \<lparr>prior_trait = ''Achievement'', prior_category = ''desires'', prior_probability = 0.25\<rparr>,
    \<lparr>prior_trait = ''Recognition'', prior_category = ''desires'', prior_probability = 0.15\<rparr>,
    \<lparr>prior_trait = ''Power'', prior_category = ''desires'', prior_probability = 0.10\<rparr>,
    \<lparr>prior_trait = ''Security'', prior_category = ''desires'', prior_probability = 0.20\<rparr>,
    \<lparr>prior_trait = ''Freedom'', prior_category = ''desires'', prior_probability = 0.15\<rparr>,
    \<lparr>prior_trait = ''Understanding'', prior_category = ''desires'', prior_probability = 0.10\<rparr>,
    \<lparr>prior_trait = ''Being understood'', prior_category = ''desires'', prior_probability = 0.25\<rparr>,
    \<lparr>prior_trait = ''Creativity'', prior_category = ''desires'', prior_probability = 0.10\<rparr>,
    \<lparr>prior_trait = ''Harmony'', prior_category = ''desires'', prior_probability = 0.15\<rparr>,
    \<lparr>prior_trait = ''Growth'', prior_category = ''desires'', prior_probability = 0.15\<rparr>,
    \<lparr>prior_trait = ''Helping others'', prior_category = ''desires'', prior_probability = 0.10\<rparr>,
    \<lparr>prior_trait = ''Rejection'', prior_category = ''fears'', prior_probability = 0.30\<rparr>,
    \<lparr>prior_trait = ''Failure'', prior_category = ''fears'', prior_probability = 0.25\<rparr>,
    \<lparr>prior_trait = ''Abandonment'', prior_category = ''fears'', prior_probability = 0.15\<rparr>,
    \<lparr>prior_trait = ''Inadequacy'', prior_category = ''fears'', prior_probability = 0.20\<rparr>,
    \<lparr>prior_trait = ''Criticism'', prior_category = ''fears'', prior_probability = 0.15\<rparr>,
    \<lparr>prior_trait = ''Being controlled'', prior_category = ''fears'', prior_probability = 0.10\<rparr>,
    \<lparr>prior_trait = ''Being irrelevant'', prior_category = ''fears'', prior_probability = 0.15\<rparr>,
    \<lparr>prior_trait = ''Uncertainty'', prior_category = ''fears'', prior_probability = 0.20\<rparr>,
    \<lparr>prior_trait = ''Vulnerability'', prior_category = ''fears'', prior_probability = 0.15\<rparr>,
    \<lparr>prior_trait = ''Conflict'', prior_category = ''fears'', prior_probability = 0.25\<rparr>,
    \<lparr>prior_trait = ''Intimacy'', prior_category = ''fears'', prior_probability = 0.10\<rparr>,
    \<lparr>prior_trait = ''Being misunderstood'', prior_category = ''fears'', prior_probability = 0.20\<rparr>,
    \<lparr>prior_trait = ''Shared interests'', prior_category = ''trustTriggers'', prior_probability = 0.25\<rparr>,
    \<lparr>prior_trait = ''Vulnerability disclosure'', prior_category = ''trustTriggers'', prior_probability = 0.15\<rparr>,
    \<lparr>prior_trait = ''Consistent behavior'', prior_category = ''trustTriggers'', prior_probability = 0.20\<rparr>,
    \<lparr>prior_trait = ''Shared values'', prior_category = ''trustTriggers'', prior_probability = 0.15\<rparr>,
    \<lparr>prior_trait = ''Active listening'', prior_category = ''trustTriggers'', prior_probability = 0.10\<rparr>,
    \<lparr>prior_trait = ''Shared experiences'', prior_category = ''trustTriggers'', prior_probability = 0.20\<rparr>,
    \<lparr>prior_trait = ''Relatability'', prior_category = ''trustTriggers'', prior_probability = 0.25\<rparr>,
    \<lparr>prior_trait = ''Shared emotional language'', prior_category = ''trustTriggers'', prior_probability = 0.15\<rparr>,
    \<lparr>prior_trait = ''Shared humor'', prior_category = ''trustTriggers'', prior_probability = 0.15\<rparr>,
    \<lparr>prior_trait = ''Perceived competence'', prior_category = ''trustTriggers'', prior_probability = 0.10\<rparr>,
    \<lparr>prior_trait = ''Shared adversity'', prior_category = ''trustTriggers'', prior_probability = 0.10\<rparr>,
    \<lparr>prior_trait = ''Perceived authenticity'', prior_category = ''trustTriggers'', prior_probability = 0.20\<rparr>,
    \<lparr>prior_trait = ''Highly emotional'', prior_category = ''emotionVsLogic'', prior_probability = 0.10\<rparr>,
    \<lparr>prior_trait = ''Moderately emotional'', prior_category = ''emotionVsLogic'', prior_probability = 0.25\<rparr>,
    \<lparr>prior_trait = ''Balanced'', prior_category = ''emotionVsLogic'', prior_probability = 0.30\<rparr>,
    \<lparr>prior_trait = ''Moderately logical'', prior_category = ''emotionVsLogic'', prior_probability = 0.25\<rparr>,
    \<lparr>prior_trait = ''Highly logical'', prior_category = ''emotionVsLogic'', prior_probability = 0.10\<rparr>,
    \<lparr>prior_trait = ''Very slow'', prior_category = ''decisionPacing'', prior_probability = 0.10\<rparr>,
    \<lparr>prior_trait = ''Slow'', prior_category = ''decisionPacing'', prior_probability = 0.20\<rparr>,
    \<lparr>prior_trait = ''Moderate'', prior_category = ''decisionPacing'', prior_probability = 0.40\<rparr>,
    \<lparr>prior_trait = ''Fast'', prior_category = ''decisionPacing'', prior_probability = 0.20\<rparr>,
    \<lparr>prior_trait = ''Very fast'', prior_category = ''decisionPacing'', prior_probability = 0.10\<rparr>,
    \<lparr>prior_trait = ''Professional role'', prior_category = ''identityAnchors'', prior_probability = 0.25\<rparr>,
    \<lparr>prior_trait = ''Relationships'', prior_category = ''identityAnchors'', prior_probability = 0.20\<rparr>,
    \<lparr>prior_trait = ''Beliefs/values'', prior_category = ''identityAnchors'', prior_probability = 0.15\<rparr>,
    \<lparr>prior_trait = ''Skills/abilities'', prior_category = ''identityAnchors'', prior_probability = 0.15\<rparr>,
    \<lparr>prior_trait = ''Group membership'', prior_category = ''identityAnchors'', prior_probability = 0.10\<rparr>,
    \<lparr>prior_trait = ''Personal history'', prior_category = ''identityAnchors'', prior_probability = 0.10\<rparr>,
    \<lparr>prior_trait = ''Physical attributes'', prior_category = ''identityAnchors'', prior_probability = 0.05\<rparr>
  ]"

subsection \<open>Likelihood multipliers\<close>

definition LIKELIHOOD_MULTIPLIERS :: "LikelihoodMultiplier list" where
  "LIKELIHOOD_MULTIPLIERS = [
    \<lparr>lm_evidence = ''Highly Introverted'', lm_trait = ''Avoidant'', lm_multiplier = 1.8\<rparr>,
    \<lparr>lm_evidence = ''Highly Introverted'', lm_trait = ''Fearful-Avoidant'', lm_multiplier = 1.5\<rparr>,
    \<lparr>lm_evidence = ''Highly Introverted'', lm_trait = ''Skeptical'', lm_multiplier = 1.3\<rparr>,
    \<lparr>lm_evidence = ''Highly Introverted'', lm_trait = ''Highly Skeptical'', lm_multiplier = 1.4\<rparr>,
    \<lparr>lm_evidence = ''Highly Introverted'', lm_trait = ''Fear of rejection'', lm_multiplier = 1.5\<rparr>,
    \<lparr>lm_evidence = ''Highly Introverted'', lm_trait = ''Overthinking'', lm_multiplier = 1.7\<rparr>,
    \<lparr>lm_evidence = ''Highly Introverted'', lm_trait = ''Outlier'', lm_multiplier = 2.0\<rparr>,
    \<lparr>lm_evidence = ''Highly Introverted'', lm_trait = ''Reserved'', lm_multiplier = 2.2\<rparr>,
    \<lparr>lm_evidence = ''Highly Introverted'', lm_trait = ''Analytical'', lm_multiplier = 1.6\<rparr>,
    \<lparr>lm_evidence = ''Highly Introverted'', lm_trait = ''Written'', lm_multiplier = 1.8\<rparr>,
    \<lparr>lm_evidence = ''Highly Introverted'', lm_trait = ''Being misunderstood'', lm_multiplier = 1.5\<rparr>,
    \<lparr>lm_evidence = ''Highly Introverted'', lm_trait = ''Slow'', lm_multiplier = 1.6\<rparr>,
    \<lparr>lm_evidence = ''Highly Introverted'', lm_trait = ''Very slow'', lm_multiplier = 1.4\<rparr>,
    \<lparr>lm_evidence = ''Introverted'', lm_trait = ''Avoidant'', lm_multiplier = 1.4\<rparr>,
    \<lparr>lm_evidence = ''Introverted'', lm_trait = ''Skeptical'', lm_multiplier = 1.2\<rparr>,
    \<lparr>lm_evidence = ''Introverted'', lm_trait = ''Overthinking'', lm_multiplier = 1.5\<rparr>,
    \<lparr>lm_evidence = ''Introverted'', lm_trait = ''Outlier'', lm_multiplier = 1.5\<rparr>,
    \<lparr>lm_evidence = ''Introverted'', lm_trait = ''Reserved'', lm_multiplier = 1.8\<rparr>,
    \<lparr>lm_evidence = ''Introverted'', lm_trait = ''Analytical'', lm_multiplier = 1.4\<rparr>,
    \<lparr>lm_evidence = ''Introverted'', lm_trait = ''Written'', lm_multiplier = 1.5\<rparr>,
    \<lparr>lm_evidence = ''Introverted'', lm_trait = ''Slow'', lm_multiplier = 1.3\<rparr>,
    \<lparr>lm_evidence = ''Extroverted'', lm_trait = ''Secure'', lm_multiplier = 1.3\<rparr>,
    \<lparr>lm_evidence = ''Extroverted'', lm_trait = ''Trusting'', lm_multiplier = 1.4\<rparr>,
    \<lparr>lm_evidence = ''Extroverted'', lm_trait = ''Connector'', lm_multiplier = 1.8\<rparr>,
    \<lparr>lm_evidence = ''Extroverted'', lm_trait = ''Leader'', lm_multiplier = 1.5\<rparr>,
    \<lparr>lm_evidence = ''Extroverted'', lm_trait = ''Direct'', lm_multiplier = 1.6\<rparr>,
    \<lparr>lm_evidence = ''Extroverted'', lm_trait = ''Emotional'', lm_multiplier = 1.4\<rparr>,
    \<lparr>lm_evidence = ''Extroverted'', lm_trait = ''Verbal'', lm_multiplier = 1.7\<rparr>,
    \<lparr>lm_evidence = ''Extroverted'', lm_trait = ''Fast'', lm_multiplier = 1.5\<rparr>,
    \<lparr>lm_evidence = ''Highly Extroverted'', lm_trait = ''Secure'', lm_multiplier = 1.5\<rparr>,
    \<lparr>lm_evidence = ''Highly Extroverted'', lm_trait = ''Trusting'', lm_multiplier = 1.6\<rparr>,
    \<lparr>lm_evidence = ''Highly Extroverted'', lm_trait = ''Highly Trusting'', lm_multiplier = 1.8\<rparr>,
    \<lparr>lm_evidence = ''Highly Extroverted'', lm_trait = ''Connector'', lm_multiplier = 2.0\<rparr>,
    \<lparr>lm_evidence = ''Highly Extroverted'', lm_trait = ''Leader'', lm_multiplier = 1.9\<rparr>,
    \<lparr>lm_evidence = ''Highly Extroverted'', lm_trait = ''Direct'', lm_multiplier = 1.8\<rparr>,
    \<lparr>lm_evidence = ''Highly Extroverted'', lm_trait = ''Emotional'', lm_multiplier = 1.7\<rparr>,
    \<lparr>lm_evidence = ''Highly Extroverted'', lm_trait = ''Verbal'', lm_multiplier = 2.0\<rparr>,
    \<lparr>lm_evidence = ''Highly Extroverted'', lm_trait = ''Recognition'', lm_multiplier = 1.7\<rparr>,
    \<lparr>lm_evidence = ''Highly Extroverted'', lm_trait = ''Fast'', lm_multiplier = 1.6\<rparr>,
    \<lparr>lm_evidence = ''Highly Extroverted'', lm_trait = ''Very fast'', lm_multiplier = 1.8\<rparr>,
    \<lparr>lm_evidence = ''Anxious'', lm_trait = ''Fear of abandonment'', lm_multiplier = 2.5\<rparr>,
    \<lparr>lm_evidence = ''Anxious'', lm_trait = ''Need for reassurance'', lm_multiplier = 2.2\<rparr>,
    \<lparr>lm_evidence = ''Anxious'', lm_trait = ''Fear of rejection'', lm_multiplier = 2.0\<rparr>,
    \<lparr>lm_evidence = ''Anxious'', lm_trait = ''Overthinking'', lm_multiplier = 1.8\<rparr>,
    \<lparr>lm_evidence = ''Anxious'', lm_trait = ''Emotional'', lm_multiplier = 1.7\<rparr>,
    \<lparr>lm_evidence = ''Anxious'', lm_trait = ''Belonging'', lm_multiplier = 1.9\<rparr>,
    \<lparr>lm_evidence = ''Anxious'', lm_trait = ''Being understood'', lm_multiplier = 1.8\<rparr>,
    \<lparr>lm_evidence = ''Anxious'', lm_trait = ''Vulnerability disclosure'', lm_multiplier = 1.6\<rparr>,
    \<lparr>lm_evidence = ''Anxious'', lm_trait = ''Highly emotional'', lm_multiplier = 1.7\<rparr>,
    \<lparr>lm_evidence = ''Anxious'', lm_trait = ''Moderately emotional'', lm_multiplier = 1.5\<rparr>,
    \<lparr>lm_evidence = ''Avoidant'', lm_trait = ''Fear of intimacy'', lm_multiplier = 2.3\<rparr>,
    \<lparr>lm_evidence = ''Avoidant'', lm_trait = ''Reserved'', lm_multiplier = 1.9\<rparr>,
    \<lparr>lm_evidence = ''Avoidant'', lm_trait = ''Freedom'', lm_multiplier = 1.8\<rparr>,
    \<lparr>lm_evidence = ''Avoidant'', lm_trait = ''Being controlled'', lm_multiplier = 1.7\<rparr>,
    \<lparr>lm_evidence = ''Avoidant'', lm_trait = ''Outlier'', lm_multiplier = 1.6\<rparr>,
    \<lparr>lm_evidence = ''Avoidant'', lm_trait = ''Moderately logical'', lm_multiplier = 1.4\<rparr>,
    \<lparr>lm_evidence = ''Avoidant'', lm_trait = ''Highly logical'', lm_multiplier = 1.5\<rparr>,
    \<lparr>lm_evidence = ''Fearful-Avoidant'', lm_trait = ''Fear of abandonment'', lm_multiplier = 2.0\<rparr>,
    \<lparr>lm_evidence = ''Fearful-Avoidant'', lm_trait = ''Fear of intimacy'', lm_multiplier = 2.0\<rparr>,
    \<lparr>lm_evidence = ''Fearful-Avoidant'', lm_trait = ''Overthinking'', lm_multiplier = 2.1\<rparr>,
    \<lparr>lm_evidence = ''Fearful-Avoidant'', lm_trait = ''Highly Skeptical'', lm_multiplier = 1.9\<rparr>,
    \<lparr>lm_evidence = ''Fearful-Avoidant'', lm_trait = ''Vulnerability'', lm_multiplier = 1.8\<rparr>,
    \<lparr>lm_evidence = ''Secure'', lm_trait = ''Trusting'', lm_multiplier = 1.8\<rparr>,
    \<lparr>lm_evidence = ''Secure'', lm_trait = ''Consistent behavior'', lm_multiplier = 1.6\<rparr>,
    \<lparr>lm_evidence = ''Secure'', lm_trait = ''Balanced'', lm_multiplier = 1.7\<rparr>,
    \<lparr>lm_evidence = ''Secure'', lm_trait = ''Moderate'', lm_multiplier = 1.5\<rparr>,
    \<lparr>lm_evidence = ''Highly Skeptical'', lm_trait = ''Fear of betrayal'', lm_multiplier = 2.2\<rparr>,
    \<lparr>lm_evidence = ''Highly Skeptical'', lm_trait = ''Reserved'', lm_multiplier = 1.8\<rparr>,
    \<lparr>lm_evidence = ''Highly Skeptical'', lm_trait = ''Perceived authenticity'', lm_multiplier = 0.5\<rparr>,
    \<lparr>lm_evidence = ''Trusting'', lm_trait = ''Vulnerability disclosure'', lm_multiplier = 1.7\<rparr>,
    \<lparr>lm_evidence = ''Trusting'', lm_trait = ''Shared experiences'', lm_multiplier = 1.6\<rparr>,
    \<lparr>lm_evidence = ''Leader'', lm_trait = ''Power'', lm_multiplier = 2.0\<rparr>,
    \<lparr>lm_evidence = ''Leader'', lm_trait = ''Achievement'', lm_multiplier = 1.8\<rparr>,
    \<lparr>lm_evidence = ''Leader'', lm_trait = ''Direct'', lm_multiplier = 1.7\<rparr>,
    \<lparr>lm_evidence = ''Leader'', lm_trait = ''Fast'', lm_multiplier = 1.6\<rparr>,
    \<lparr>lm_evidence = ''Follower'', lm_trait = ''Security'', lm_multiplier = 1.6\<rparr>,
    \<lparr>lm_evidence = ''Follower'', lm_trait = ''Belonging'', lm_multiplier = 1.5\<rparr>,
    \<lparr>lm_evidence = ''Connector'', lm_trait = ''Relatability'', lm_multiplier = 1.9\<rparr>,
    \<lparr>lm_evidence = ''Connector'', lm_trait = ''Shared interests'', lm_multiplier = 1.7\<rparr>,
    \<lparr>lm_evidence = ''Connector'', lm_trait = ''Personal'', lm_multiplier = 1.8\<rparr>,
    \<lparr>lm_evidence = ''Outlier'', lm_trait = ''Being misunderstood'', lm_multiplier = 1.8\<rparr>,
    \<lparr>lm_evidence = ''Outlier'', lm_trait = ''Freedom'', lm_multiplier = 1.7\<rparr>,
    \<lparr>lm_evidence = ''Outlier'', lm_trait = ''Being irrelevant'', lm_multiplier = 1.6\<rparr>,
    \<lparr>lm_evidence = ''Direct'', lm_trait = ''Conflict'', lm_multiplier = 1.4\<rparr>,
    \<lparr>lm_evidence = ''Direct'', lm_trait = ''Trusting'', lm_multiplier = 1.3\<rparr>,
    \<lparr>lm_evidence = ''Indirect'', lm_trait = ''Conflict'', lm_multiplier = 0.7\<rparr>,
    \<lparr>lm_evidence = ''Indirect'', lm_trait = ''Fear of rejection'', lm_multiplier = 1.5\<rparr>,
    \<lparr>lm_evidence = ''Reserved'', lm_trait = ''Being misunderstood'', lm_multiplier = 1.6\<rparr>,
    \<lparr>lm_evidence = ''Reserved'', lm_trait = ''Vulnerability'', lm_multiplier = 1.5\<rparr>,
    \<lparr>lm_evidence = ''Analytical'', lm_trait = ''Highly logical'', lm_multiplier = 2.0\<rparr>,
    \<lparr>lm_evidence = ''Analytical'', lm_trait = ''Moderately logical'', lm_multiplier = 1.7\<rparr>,
    \<lparr>lm_evidence = ''Emotional'', lm_trait = ''Highly emotional'', lm_multiplier = 2.0\<rparr>,
    \<lparr>lm_evidence = ''Emotional'', lm_trait = ''Moderately emotional'', lm_multiplier = 1.7\<rparr>
  ]"

subsection \<open>Helper functions\<close>

text \<open>\<^verbatim>\<open>PRIORS.find(p => p.trait === trait && p.category === category)\<close>, default 0.01.\<close>

definition getPrior :: "PriorProbability list \<Rightarrow> string \<Rightarrow> string \<Rightarrow> real" where
  "getPrior P trait cat =
     (case find (\<lambda>p. prior_trait p = trait \<and> prior_category p = cat) P of
        Some prior \<Rightarrow> prior_probability prior
      | None \<Rightarrow> 0.01)"

definition getTraitsForCategory :: "PriorProbability list \<Rightarrow> string \<Rightarrow> PriorProbability list" where
  "getTraitsForCategory P cat = filter (\<lambda>p. prior_category p = cat) P"

definition getLikelihoodMultiplier :: "LikelihoodMultiplier list \<Rightarrow> string \<Rightarrow> string \<Rightarrow> real" where
  "getLikelihoodMultiplier L ev trait =
     (case find (\<lambda>lm. lm_evidence lm = ev \<and> lm_trait lm = trait) L of
        Some multiplier \<Rightarrow> lm_multiplier multiplier
      | None \<Rightarrow> 1.0)"

text \<open>
  \<^verbatim>\<open>Math.pow(x, y)\<close> on a base \<open>x \<ge> 0\<close>, the only bases that a table of non-negative
  multipliers gives, and an exponent \<open>y \<ge> 0\<close> when the base is 0: \<open>y = 0\<close> gives 1 for every
  base (also for base 0, where \<^term>\<open>(0::real) powr 0 = 0\<close>), \<open>y = 1\<close> gives the base, and
  any other exponent is the real power.
\<close>

definition Math_pow :: "real \<Rightarrow> real \<Rightarrow> real" where
  "Math_pow x y = (if y = 0 then 1 else if y = 1 then x else x powr y)"

text \<open>
  The inner loop that both \<^verbatim>\<open>calculateNormalizationFactor\<close> and
  \<^verbatim>\<open>calculatePosteriors\<close> run for one trait: start from the prior and, for each piece of
  evidence in order, multiply by the multiplier raised to the weight of the evidence.
\<close>

definition applyEvidence :: "LikelihoodMultiplier list \<Rightarrow> PriorProbability \<Rightarrow> EvidenceVariable list \<Rightarrow> real" where
  "applyEvidence L trait evs =
     foldl (\<lambda>posterior ev.
              posterior * Math_pow (getLikelihoodMultiplier L (ev_trait ev) (prior_trait trait))
                                   (ev_probability ev))
           (prior_probability trait) evs"

definition calculateNormalizationFactor ::
  "PriorProbability list \<Rightarrow> LikelihoodMultiplier list \<Rightarrow> string \<Rightarrow> EvidenceVariable list \<Rightarrow> real" where
  "calculateNormalizationFactor P L cat evs =
     foldl (\<lambda>normalizationFactor trait. normalizationFactor + applyEvidence L trait evs)
           0 (getTraitsForCategory P cat)"

text \<open>The only division of the engine is under the guard \<^verbatim>\<open>normalizationFactor > 0\<close>.\<close>

definition calculatePosteriors ::
  "PriorProbability list \<Rightarrow> LikelihoodMultiplier list \<Rightarrow> string \<Rightarrow> EvidenceVariable list \<Rightarrow> posterior_map" where
  "calculatePosteriors P L cat evs =
     (let normalizationFactor = calculateNormalizationFactor P L cat evs in
      foldl (\<lambda>posteriors trait.
               let posterior = applyEvidence L trait evs;
                   posterior = (if normalizationFactor > 0 then posterior / normalizationFactor
                                else posterior)
               in AList.update (prior_trait trait) posterior posteriors)
            [] (getTraitsForCategory P cat))"




text \<open>
  \<^verbatim>\<open>posteriors.forEach\<close> visits the entries in insertion order; the running best starts
  at the empty string with probability 0 and moves only on a strictly larger probability.
\<close>

definition findHighestProbabilityTrait :: "posterior_map \<Rightarrow> string \<times> real" where
  "findHighestProbabilityTrait posteriors =
     foldl (\<lambda>(highestTrait, highestProbability) (trait, probability).
              if probability > highestProbability then (trait, probability)
              else (highestTrait, highestProbability))
           ('''', 0) posteriors"

text \<open>
  \<^verbatim>\<open>Array.from(posteriors.values()).sort((a, b) => b - a)\<close> sorts the values in
  descending order.
\<close>

definition sort_desc :: "real list \<Rightarrow> real list" where
  "sort_desc xs = sort_key (\<lambda>x. - x) xs"

definition calculateConfidence :: "posterior_map \<Rightarrow> real" where
  "calculateConfidence posteriors =
     (let probabilities = sort_desc (map snd posteriors) in
      if length probabilities \<le> 1 then 1.0
      else let gap = probabilities ! 0 - probabilities ! 1
           in min 1.0 (max 0.0 (gap * 3)))"

subsection \<open>Main inference engine\<close>

text \<open>\<^verbatim>\<open>Array.from(new Set(xs))\<close>: the first occurrence of each element, in order.\<close>

definition unique_in_order :: "'a list \<Rightarrow> 'a list" where
  "unique_in_order xs = rev (remdups (rev xs))"

definition performInference :: "EvidenceVariable list \<Rightarrow> BayesianInference" where
  "performInference evs =
     (let categories = unique_in_order (map prior_category PRIORS) in
      \<lparr>bi_priors = PRIORS,
       bi_likelihoods = LIKELIHOOD_MULTIPLIERS,
       bi_evidence = evs,
       bi_posteriors =
         foldl (\<lambda>posteriors cat.
                  AList.update cat (calculatePosteriors PRIORS LIKELIHOOD_MULTIPLIERS cat evs) posteriors)
               [] categories\<rparr>)"

definition getInferenceResult :: "BayesianInference \<Rightarrow> string \<Rightarrow> InferenceResult option" where
  "getInferenceResult inference cat =
     (case map_of (bi_posteriors inference) cat of
        None \<Rightarrow> None
      | Some categoryPosteriors \<Rightarrow>
          (let (recommended, probability) = findHighestProbabilityTrait categoryPosteriors;
               conf = calculateConfidence categoryPosteriors;
               traitsObject = foldl (\<lambda>obj (trait, prob). AList.update trait prob obj) [] categoryPosteriors
           in Some \<lparr>category = cat, traits = traitsObject,
                    recommendedTrait = recommended, confidence = conf\<rparr>))"


subsection \<open>Evidence extraction\<close>

text \<open>Each of the five fields is pushed, in this order, when it is truthy.\<close>

definition extractEvidenceFromCharacter :: "Character \<Rightarrow> EvidenceVariable list" where
  "extractEvidenceFromCharacter character =
     (if introversionExtroversion (psychologicalProfile character) \<noteq> ''''
      then [\<lparr>ev_trait = introversionExtroversion (psychologicalProfile character), ev_probability = 1.0\<rparr>]
      else []) @
     (if attachmentStyle (psychologicalProfile character) \<noteq> ''''
      then [\<lparr>ev_trait = attachmentStyle (psychologicalProfile character), ev_probability = 1.0\<rparr>]
      else []) @
     (if trustLevel (psychologicalProfile character) \<noteq> ''''
      then [\<lparr>ev_trait = trustLevel (psychologicalProfile character), ev_probability = 1.0\<rparr>]
      else []) @
     (if role (socialHierarchyPosition character) \<noteq> ''''
      then [\<lparr>ev_trait = role (socialHierarchyPosition character), ev_probability = 1.0\<rparr>]
      else []) @
     (if primaryStyle (communication character) \<noteq> ''''
      then [\<lparr>ev_trait = primaryStyle (communication character), ev_probability = 1.0\<rparr>]
      else [])"

subsection \<open>Autocomplete\<close>

text \<open>
  \<^verbatim>\<open>Object.entries(result.traits).sort(([, a], [, b]) => b - a).slice(0, 3)\<close>: the
  entries in descending order of probability, entries of equal probability in their
  order in the object (\<^verbatim>\<open>Array.prototype.sort\<close> is stable, and so is
  \<^const>\<open>sort_key\<close>), cut to the first three.
\<close>

definition top3 :: "(string \<times> real) list \<Rightarrow> (string \<times> real) list" where
  "top3 entries = take 3 (sort_key (\<lambda>(trait, probability). - probability) entries)"

definition emotionLogicMap :: "(string \<times> real) list" where
  "emotionLogicMap =
     [(''Highly emotional'', 0.9), (''Moderately emotional'', 0.7), (''Balanced'', 0.5),
      (''Moderately logical'', 0.3), (''Highly logical'', 0.1)]"

text \<open>\<^verbatim>\<open>emotionLogicMap[result.recommendedTrait] || 0.5\<close>\<close>

definition emotionLogicValue :: "string \<Rightarrow> real" where
  "emotionLogicValue trait =
     (case map_of emotionLogicMap trait of
        None \<Rightarrow> 0.5
      | Some v \<Rightarrow> if v = 0 then 0.5 else v)"

text \<open>
  The twelve guarded assignments of \<^verbatim>\<open>autocompleteCharacter\<close>, one definition each, in
  the order of the source. Each takes the inference and the copy under construction.
\<close>

definition fill_introversionExtroversion :: "BayesianInference \<Rightarrow> Character \<Rightarrow> Character" where
  "fill_introversionExtroversion inference c =
     (if introversionExtroversion (psychologicalProfile c) = '''' then
        (case getInferenceResult inference ''introversionExtroversion'' of
           None \<Rightarrow> c
         | Some result \<Rightarrow>
             c\<lparr>psychologicalProfile :=
                 (psychologicalProfile c)\<lparr>introversionExtroversion := recommendedTrait result\<rparr>\<rparr>)
      else c)"

definition fill_attachmentStyle :: "BayesianInference \<Rightarrow> Character \<Rightarrow> Character" where
  "fill_attachmentStyle inference c =
     (if attachmentStyle (psychologicalProfile c) = '''' then
        (case getInferenceResult inference ''attachmentStyle'' of
           None \<Rightarrow> c
         | Some result \<Rightarrow>
             c\<lparr>psychologicalProfile :=
                 (psychologicalProfile c)\<lparr>attachmentStyle := recommendedTrait result\<rparr>\<rparr>)
      else c)"

definition fill_trustLevel :: "BayesianInference \<Rightarrow> Character \<Rightarrow> Character" where
  "fill_trustLevel inference c =
     (if trustLevel (psychologicalProfile c) = '''' then
        (case getInferenceResult inference ''trustLevel'' of
           None \<Rightarrow> c
         | Some result \<Rightarrow>
             c\<lparr>psychologicalProfile :=
                 (psychologicalProfile c)\<lparr>trustLevel := recommendedTrait result\<rparr>\<rparr>)
      else c)"

definition fill_likelyVulnerabilities :: "BayesianInference \<Rightarrow> Character \<Rightarrow> Character" where
  "fill_likelyVulnerabilities inference c =
     (if length (likelyVulnerabilities (psychologicalProfile c)) = 0 then
        (case getInferenceResult inference ''vulnerabilities'' of
           None \<Rightarrow> c
         | Some result \<Rightarrow>
             c\<lparr>psychologicalProfile :=
                 (psychologicalProfile c)\<lparr>likelyVulnerabilities :=
                    map (\<lambda>(trait, probability). \<lparr>vuln_type = trait, vuln_probability = probability\<rparr>)
                        (top3 (traits result))\<rparr>\<rparr>)
      else c)"

definition fill_role :: "BayesianInference \<Rightarrow> Character \<Rightarrow> Character" where
  "fill_role inference c =
     (if role (socialHierarchyPosition c) = '''' then
        (case getInferenceResult inference ''socialRole'' of
           None \<Rightarrow> c
         | Some result \<Rightarrow>
             c\<lparr>socialHierarchyPosition :=
                 (socialHierarchyPosition c)\<lparr>role := recommendedTrait result\<rparr>\<rparr>)
      else c)"

definition fill_primaryStyle :: "BayesianInference \<Rightarrow> Character \<Rightarrow> Character" where
  "fill_primaryStyle inference c =
     (if primaryStyle (communication c) = '''' then
        (case getInferenceResult inference ''communicationStyle'' of
           None \<Rightarrow> c
         | Some result \<Rightarrow>
             c\<lparr>communication := (communication c)\<lparr>primaryStyle := recommendedTrait result\<rparr>\<rparr>)
      else c)"

definition fill_emotionVsLogic :: "BayesianInference \<Rightarrow> Character \<Rightarrow> Character" where
  "fill_emotionVsLogic inference c =
     (if emotionVsLogic (decisionMaking c) = 0 then
        (case getInferenceResult inference ''emotionVsLogic'' of
           None \<Rightarrow> c
         | Some result \<Rightarrow>
             c\<lparr>decisionMaking :=
                 (decisionMaking c)\<lparr>emotionVsLogic := emotionLogicValue (recommendedTrait result)\<rparr>\<rparr>)
      else c)"

definition fill_pacing :: "BayesianInference \<Rightarrow> Character \<Rightarrow> Character" where
  "fill_pacing inference c =
     (if pacing (decisionMaking c) = '''' then
        (case getInferenceResult inference ''decisionPacing'' of
           None \<Rightarrow> c
         | Some result \<Rightarrow>
             c\<lparr>decisionMaking := (decisionMaking c)\<lparr>pacing := recommendedTrait result\<rparr>\<rparr>)
      else c)"

definition fill_desires :: "BayesianInference \<Rightarrow> Character \<Rightarrow> Character" where
  "fill_desires inference c =
     (if length (desires (motivationsInsecurities c)) = 0 then
        (case getInferenceResult inference ''desires'' of
           None \<Rightarrow> c
         | Some result \<Rightarrow>
             c\<lparr>motivationsInsecurities :=
                 (motivationsInsecurities c)\<lparr>desires :=
                    map (\<lambda>(trait, probability). \<lparr>mot_type = trait, mot_strength = probability\<rparr>)
                        (top3 (traits result))\<rparr>\<rparr>)
      else c)"

definition fill_fears :: "BayesianInference \<Rightarrow> Character \<Rightarrow> Character" where
  "fill_fears inference c =
     (if length (fears (motivationsInsecurities c)) = 0 then
        (case getInferenceResult inference ''fears'' of
           None \<Rightarrow> c
         | Some result \<Rightarrow>
             c\<lparr>motivationsInsecurities :=
                 (motivationsInsecurities c)\<lparr>fears :=
                    map (\<lambda>(trait, probability). \<lparr>ins_type = trait, ins_strength = probability\<rparr>)
                        (top3 (traits result))\<rparr>\<rparr>)
      else c)"

definition fill_triggers :: "BayesianInference \<Rightarrow> Character \<Rightarrow> Character" where
  "fill_triggers inference c =
     (if length (triggers (trustSignalsVulnerabilityMarkers c)) = 0 then
        (case getInferenceResult inference ''trustTriggers'' of
           None \<Rightarrow> c
         | Some result \<Rightarrow>
             c\<lparr>trustSignalsVulnerabilityMarkers :=
                 (trustSignalsVulnerabilityMarkers c)\<lparr>triggers :=
                    map (\<lambda>(trait, probability). \<lparr>trig_type = trait, trig_effectiveness = probability\<rparr>)
                        (top3 (traits result))\<rparr>\<rparr>)
      else c)"

definition fill_coreAnchors :: "BayesianInference \<Rightarrow> Character \<Rightarrow> Character" where
  "fill_coreAnchors inference c =
     (if length (coreAnchors (identityAnchors c)) = 0 then
        (case getInferenceResult inference ''identityAnchors'' of
           None \<Rightarrow> c
         | Some result \<Rightarrow>
             c\<lparr>identityAnchors :=
                 (identityAnchors c)\<lparr>coreAnchors :=
                    map (\<lambda>(trait, probability).
                           \<lparr>anchor_type = trait, anchor_centrality = probability, anchor_visibility = 0.5\<rparr>)
                        (top3 (traits result))\<rparr>\<rparr>)
      else c)"

text \<open>
  \<^verbatim>\<open>JSON.parse(JSON.stringify(character))\<close> builds a fresh object equal to its argument
  on the fields modelled here (strings, finite numbers, arrays of plain objects), so the
  copy is the value itself; the evidence is extracted from the original and the
  inference is run once.
\<close>

definition autocompleteCharacter :: "Character \<Rightarrow> Character" where
  "autocompleteCharacter character =
     (let completedCharacter = character;
          evs = extractEvidenceFromCharacter character;
          inference = performInference evs
      in fill_coreAnchors inference
          (fill_triggers inference
            (fill_fears inference
              (fill_desires inference
                (fill_pacing inference
                  (fill_emotionVsLogic inference
                    (fill_primaryStyle inference
                      (fill_role inference
                        (fill_likelyVulnerabilities inference
                          (fill_trustLevel inference
                            (fill_attachmentStyle inference
                              (fill_introversionExtroversion inference completedCharacter))))))))))))"

subsection \<open>Compatibility\<close>

definition getIntroversionExtroversionValue :: "string \<Rightarrow> real" where
  "getIntroversionExtroversionValue ie =
     (if ie = ''Highly Introverted'' then 0
      else if ie = ''Introverted'' then 1
      else if ie = ''Ambivert'' then 2
      else if ie = ''Extroverted'' then 3
      else if ie = ''Highly Extroverted'' then 4
      else 2)"

definition calculateCompatibility :: "Character \<Rightarrow> Character \<Rightarrow> real" where
  "calculateCompatibility character1 character2 =
     (let compatibilityScore = 0;
          totalFactors = 0;
          compatibilityScore =
            (if attachmentStyle (psychologicalProfile character1) = ''Secure'' \<and>
                attachmentStyle (psychologicalProfile character2) = ''Secure''
             then compatibilityScore + 1
             else if attachmentStyle (psychologicalProfile character1) = ''Anxious'' \<and>
                     attachmentStyle (psychologicalProfile character2) = ''Avoidant''
             then compatibilityScore + 0.3
             else if attachmentStyle (psychologicalProfile character1) = ''Avoidant'' \<and>
                     attachmentStyle (psychologicalProfile character2) = ''Anxious''
             then compatibilityScore + 0.3
             else compatibilityScore + 0.5);
          totalFactors = totalFactors + 1;
          introExtroCompat =
            1 - \<bar>getIntroversionExtroversionValue (introversionExtroversion (psychologicalProfile character1)) -
                 getIntroversionExtroversionValue (introversionExtroversion (psychologicalProfile character2))\<bar> / 4;
          compatibilityScore = compatibilityScore + introExtroCompat;
          totalFactors = totalFactors + 1;
          compatibilityScore =
            (if primaryStyle (communication character1) = primaryStyle (communication character2)
             then compatibilityScore + 1
             else if (primaryStyle (communication character1) = ''Direct'' \<and>
                      primaryStyle (communication character2) = ''Direct'') \<or>
                     (primaryStyle (communication character1) = ''Analytical'' \<and>
                      primaryStyle (communication character2) = ''Analytical'')
             then compatibilityScore + 0.9
             else if (primaryStyle (communication character1) = ''Direct'' \<and>
                      primaryStyle (communication character2) = ''Indirect'') \<or>
                     (primaryStyle (communication character1) = ''Indirect'' \<and>
                      primaryStyle (communication character2) = ''Direct'')
             then compatibilityScore + 0.4
             else compatibilityScore + 0.6);
          totalFactors = totalFactors + 1;
          decisionMakingCompat =
            1 - \<bar>emotionVsLogic (decisionMaking character1) - emotionVsLogic (decisionMaking character2)\<bar>;
          compatibilityScore = compatibilityScore + decisionMakingCompat;
          totalFactors = totalFactors + 1
      in compatibilityScore / totalFactors)"


subsection \<open>Definitions that word the specification\<close>

text \<open>The largest and the second-largest value of a list of probabilities.\<close>

definition largest :: "real list \<Rightarrow> real" where
  "largest ps = Max (set ps)"

definition second_largest :: "real list \<Rightarrow> real" where
  "second_largest ps = Max (set (remove1 (largest ps) ps))"

text \<open>
  The four factors of the compatibility score as the specification words them: the
  attachment pairing, the introversion distance on the ordinal scale 0 to 4, the
  communication pairing, and the decision distance.
\<close>

definition spec_attachment_factor :: "string \<Rightarrow> string \<Rightarrow> real" where
  "spec_attachment_factor a b =
     (if a = ''Secure'' \<and> b = ''Secure'' then 1.0
      else if (a = ''Anxious'' \<and> b = ''Avoidant'') \<or> (a = ''Avoidant'' \<and> b = ''Anxious'') then 0.3
      else 0.5)"

text \<open>
  The five-point scale: the five buckets in their order, numbered 0 to 4. A value that is
  none of the five buckets is put at the middle of the scale.
\<close>

definition spec_introversion_scale :: "(string \<times> real) list" where
  "spec_introversion_scale =
     [(''Highly Introverted'', 0), (''Introverted'', 1), (''Ambivert'', 2), (''Extroverted'', 3),
      (''Highly Extroverted'', 4)]"

definition spec_introversion_ordinal :: "string \<Rightarrow> real" where
  "spec_introversion_ordinal bucket =
     (case map_of spec_introversion_scale bucket of Some n \<Rightarrow> n | None \<Rightarrow> 2)"

definition spec_introversion_factor :: "string \<Rightarrow> string \<Rightarrow> real" where
  "spec_introversion_factor a b =
     1 - \<bar>spec_introversion_ordinal a - spec_introversion_ordinal b\<bar> / 4"

definition spec_communication_factor :: "string \<Rightarrow> string \<Rightarrow> real" where
  "spec_communication_factor a b =
     (if a = b then 1.0
      else if (a = ''Direct'' \<and> b = ''Indirect'') \<or> (a = ''Indirect'' \<and> b = ''Direct'') then 0.4
      else 0.6)"

definition spec_decision_factor :: "real \<Rightarrow> real \<Rightarrow> real" where
  "spec_decision_factor x y = 1 - \<bar>x - y\<bar>"

text \<open>
  The categories that \<^verbatim>\<open>autocompleteCharacter\<close> asks for, and the profiles on which every
  one of its twelve guards is false.
\<close>

definition autocomplete_categories :: "string list" where
  "autocomplete_categories =
     [''introversionExtroversion'', ''attachmentStyle'', ''trustLevel'', ''vulnerabilities'',
      ''socialRole'', ''communicationStyle'', ''emotionVsLogic'', ''decisionPacing'',
      ''desires'', ''fears'', ''trustTriggers'', ''identityAnchors'']"

definition populated :: "Character \<Rightarrow> bool" where
  "populated c \<longleftrightarrow>
     introversionExtroversion (psychologicalProfile c) \<noteq> '''' \<and>
     attachmentStyle (psychologicalProfile c) \<noteq> '''' \<and>
     trustLevel (psychologicalProfile c) \<noteq> '''' \<and>
     likelyVulnerabilities (psychologicalProfile c) \<noteq> [] \<and>
     role (socialHierarchyPosition c) \<noteq> '''' \<and>
     primaryStyle (communication c) \<noteq> '''' \<and>
     emotionVsLogic (decisionMaking c) \<noteq> 0 \<and>
     pacing (decisionMaking c) \<noteq> '''' \<and>
     desires (motivationsInsecurities c) \<noteq> [] \<and>
     fears (motivationsInsecurities c) \<noteq> [] \<and>
     triggers (trustSignalsVulnerabilityMarkers c) \<noteq> [] \<and>
     coreAnchors (identityAnchors c) \<noteq> []"

text \<open>
  \<^verbatim>\<open>createNewCharacter\<close> of \<^verbatim>\<open>types/Character.ts\<close>, on the fields of the model.
\<close>

definition createNewCharacter :: Character where
  "createNewCharacter =
     \<lparr>psychologicalProfile =
        \<lparr>introversionExtroversion = ''Ambivert'', attachmentStyle = ''Secure'',
         trustLevel = ''Neutral'', likelyVulnerabilities = []\<rparr>,
      socialHierarchyPosition = \<lparr>role = ''Follower''\<rparr>,
      motivationsInsecurities = \<lparr>desires = [], fears = []\<rparr>,
      trustSignalsVulnerabilityMarkers = \<lparr>triggers = []\<rparr>,
      communication = \<lparr>primaryStyle = ''Direct''\<rparr>,
      decisionMaking = \<lparr>emotionVsLogic = 0.5, pacing = ''Moderate''\<rparr>,
      identityAnchors = \<lparr>coreAnchors = []\<rparr>\<rparr>"

text \<open>
  A new character whose emotion-versus-logic slider was moved to its left end, 0, which
  \<^verbatim>\<open>DecisionMaking\<close> documents as "purely logical".
\<close>

definition purely_logical_character :: Character where
  "purely_logical_character =
     createNewCharacter\<lparr>decisionMaking := \<lparr>emotionVsLogic = 0, pacing = ''Moderate''\<rparr>\<rparr>"


section \<open>Properties\<close>

subsection \<open>Association lists and folds\<close>

lemma update_fresh: "k \<notin> fst ` set al \<Longrightarrow> AList.update k v al = al @ [(k, v)]"
  by (induction al) auto

lemma foldl_update_distinct:
  "distinct (map f xs) \<Longrightarrow> \<forall>x\<in>set xs. f x \<notin> fst ` set acc \<Longrightarrow>
   foldl (\<lambda>m t. AList.update (f t) (g t) m) acc xs = acc @ map (\<lambda>t. (f t, g t)) xs"
proof (induction xs arbitrary: acc)
  case Nil
  then show ?case by simp
next
  case (Cons x xs)
  have fresh: "f x \<notin> fst ` set acc" using Cons.prems(2) by simp
  have "\<forall>y\<in>set xs. f y \<notin> fst ` set (acc @ [(f x, g x)])"
    using Cons.prems by (fastforce simp: image_iff)
  with Cons.IH [of "acc @ [(f x, g x)]"] Cons.prems(1) fresh show ?case
    by (simp add: update_fresh)
qed

lemma foldl_update_keys_lookup:
  "map_of (foldl (\<lambda>m c. AList.update c (g c) m) acc cs) k =
     (if k \<in> set cs then Some (g k) else map_of acc k)"
  by (induction cs arbitrary: acc) (auto simp: update_conv')





lemma foldl_plus: "foldl (\<lambda>a t. a + f t) a0 xs = a0 + sum_list (map f xs)" for a0 :: real
  by (induction xs arbitrary: a0) (auto simp: algebra_simps)

lemma foldl_times: "foldl (\<lambda>a e. a * f e) a0 xs = a0 * prod_list (map f xs)" for a0 :: real
  by (induction xs arbitrary: a0) (auto simp: algebra_simps)


lemma prod_list_pos_real: "(\<And>x. x \<in> set xs \<Longrightarrow> 0 < x) \<Longrightarrow> 0 < prod_list xs" for xs :: "real list"
  by (induction xs) auto

lemma sum_list_pos_real: "xs \<noteq> [] \<Longrightarrow> (\<And>x. x \<in> set xs \<Longrightarrow> 0 < x) \<Longrightarrow> 0 < sum_list xs" for xs :: "real list"
  by (induction xs) (auto simp: add_pos_nonneg sum_list_nonneg less_imp_le)

lemma sum_list_divide: "sum_list (map (\<lambda>t. f t / z) xs) = sum_list (map f xs) / z" for z :: real
  by (induction xs) (simp_all add: add_divide_distrib)

lemma set_unique_in_order: "set (unique_in_order xs) = set xs"
  by (simp add: unique_in_order_def)

subsection \<open>The engine over any pair of tables\<close>

lemma calculateNormalizationFactor_sum:
  "calculateNormalizationFactor P L c evs =
     sum_list (map (\<lambda>t. applyEvidence L t evs) (getTraitsForCategory P c))"
  by (simp add: calculateNormalizationFactor_def foldl_plus)

lemma applyEvidence_prod:
  "applyEvidence L t evs =
     prior_probability t *
     prod_list (map (\<lambda>ev. Math_pow (getLikelihoodMultiplier L (ev_trait ev) (prior_trait t)) (ev_probability ev)) evs)"
  by (simp add: applyEvidence_def foldl_times)

lemma applyEvidence_Nil: "applyEvidence L t [] = prior_probability t"
  by (simp add: applyEvidence_def)

lemma applyEvidence_single_full:
  "applyEvidence L t [\<lparr>ev_trait = e, ev_probability = 1\<rparr>] =
     prior_probability t * getLikelihoodMultiplier L e (prior_trait t)"
  by (simp add: applyEvidence_def Math_pow_def)

lemma calculatePosteriors_map:
  assumes "distinct (map prior_trait (getTraitsForCategory P c))"
  shows "calculatePosteriors P L c evs =
     map (\<lambda>t. (prior_trait t,
                if calculateNormalizationFactor P L c evs > 0
                then applyEvidence L t evs / calculateNormalizationFactor P L c evs
                else applyEvidence L t evs))
         (getTraitsForCategory P c)"
  using foldl_update_distinct [OF assms, of "[]"]
  by (simp add: calculatePosteriors_def Let_def)


lemma Math_pow_pos: "0 < x \<Longrightarrow> 0 < Math_pow x y"
  by (simp add: Math_pow_def)

lemma Math_pow_one: "Math_pow 1 y = 1"
  by (simp add: Math_pow_def)


lemma getLikelihoodMultiplier_pos:
  "list_all (\<lambda>l. 0 < lm_multiplier l) L \<Longrightarrow> 0 < getLikelihoodMultiplier L e t"
  by (auto simp: getLikelihoodMultiplier_def list_all_iff find_Some_iff split: option.splits)

lemma getLikelihoodMultiplier_neutral:
  "list_all (\<lambda>r. lm_evidence r \<noteq> e) L \<Longrightarrow> getLikelihoodMultiplier L e t = 1"
  by (auto simp: getLikelihoodMultiplier_def list_all_iff find_Some_iff split: option.splits)


lemma applyEvidence_pos:
  "list_all (\<lambda>l. 0 < lm_multiplier l) L \<Longrightarrow> 0 < prior_probability t \<Longrightarrow> 0 < applyEvidence L t evs"
  unfolding applyEvidence_prod
  by (intro mult_pos_pos prod_list_pos_real)
     (auto simp: Math_pow_pos getLikelihoodMultiplier_pos)

lemma applyEvidence_neutral:
  assumes "list_all (\<lambda>r. lm_evidence r \<noteq> e) L"
  shows "applyEvidence L t evs = applyEvidence L t (filter (\<lambda>x. ev_trait x \<noteq> e) evs)"
  unfolding applyEvidence_prod
  by (induction evs) (auto simp: getLikelihoodMultiplier_neutral [OF assms] Math_pow_one)

subsection \<open>The tables of the program\<close>

lemma PRIORS_distinct: "distinct (map prior_trait PRIORS)"
  by (simp add: PRIORS_def)

lemma PRIORS_pos: "list_all (\<lambda>p. 0 < prior_probability p \<and> prior_trait p \<noteq> []) PRIORS"
  by (simp add: PRIORS_def)

lemma LIKELIHOOD_MULTIPLIERS_pos: "list_all (\<lambda>l. 0 < lm_multiplier l) LIKELIHOOD_MULTIPLIERS"
  by (simp add: LIKELIHOOD_MULTIPLIERS_def)


lemma traits_distinct: "distinct (map prior_trait (getTraitsForCategory PRIORS c))"
  unfolding getTraitsForCategory_def using PRIORS_distinct by (rule distinct_map_filter)

lemma traits_pos:
  "t \<in> set (getTraitsForCategory PRIORS c) \<Longrightarrow> 0 < prior_probability t \<and> prior_trait t \<noteq> []"
  using PRIORS_pos by (auto simp: getTraitsForCategory_def list_all_iff)

lemma score_pos:
  "t \<in> set (getTraitsForCategory PRIORS c) \<Longrightarrow> 0 < applyEvidence LIKELIHOOD_MULTIPLIERS t evs"
  by (simp add: applyEvidence_pos LIKELIHOOD_MULTIPLIERS_pos traits_pos)

lemma normalization_pos:
  "getTraitsForCategory PRIORS c \<noteq> [] \<Longrightarrow>
   0 < calculateNormalizationFactor PRIORS LIKELIHOOD_MULTIPLIERS c evs"
  unfolding calculateNormalizationFactor_sum
  by (rule sum_list_pos_real) (auto simp: score_pos)

lemma posteriors_program:
  "calculatePosteriors PRIORS LIKELIHOOD_MULTIPLIERS c evs =
     map (\<lambda>t. (prior_trait t,
                applyEvidence LIKELIHOOD_MULTIPLIERS t evs /
                calculateNormalizationFactor PRIORS LIKELIHOOD_MULTIPLIERS c evs))
         (getTraitsForCategory PRIORS c)"
proof (cases "getTraitsForCategory PRIORS c = []")
  case True
  then show ?thesis by (simp add: calculatePosteriors_def)
next
  case False
  then show ?thesis
    by (simp add: calculatePosteriors_map [OF traits_distinct] normalization_pos)
qed

lemma posteriors_sum_one:
  assumes "getTraitsForCategory PRIORS c \<noteq> []"
  shows "sum_list (map snd (calculatePosteriors PRIORS LIKELIHOOD_MULTIPLIERS c evs)) = 1"
proof -
  have z: "0 < calculateNormalizationFactor PRIORS LIKELIHOOD_MULTIPLIERS c evs"
    using assms by (rule normalization_pos)
  have "sum_list (map snd (calculatePosteriors PRIORS LIKELIHOOD_MULTIPLIERS c evs)) =
        sum_list (map (\<lambda>t. applyEvidence LIKELIHOOD_MULTIPLIERS t evs) (getTraitsForCategory PRIORS c)) /
        calculateNormalizationFactor PRIORS LIKELIHOOD_MULTIPLIERS c evs"
    by (simp add: posteriors_program comp_def sum_list_divide)
  also have "\<dots> = 1"
    using z by (simp add: calculateNormalizationFactor_sum)
  finally show ?thesis .
qed

lemma posteriors_lookup:
  "map_of (bi_posteriors (performInference evs)) c =
     (if getTraitsForCategory PRIORS c \<noteq> []
      then Some (calculatePosteriors PRIORS LIKELIHOOD_MULTIPLIERS c evs) else None)"
proof -
  have "getTraitsForCategory PRIORS c \<noteq> [] \<longleftrightarrow> c \<in> set (unique_in_order (map prior_category PRIORS))"
    by (auto simp: getTraitsForCategory_def set_unique_in_order filter_empty_conv)
  then show ?thesis
    by (simp add: performInference_def Let_def foldl_update_keys_lookup)
qed

lemma traits_socialRole:
  "getTraitsForCategory PRIORS ''socialRole'' =
     [\<lparr>prior_trait = ''Leader'', prior_category = ''socialRole'', prior_probability = 1 / 10\<rparr>,
      \<lparr>prior_trait = ''Follower'', prior_category = ''socialRole'', prior_probability = 1 / 2\<rparr>,
      \<lparr>prior_trait = ''Connector'', prior_category = ''socialRole'', prior_probability = 3 / 20\<rparr>,
      \<lparr>prior_trait = ''Outlier'', prior_category = ''socialRole'', prior_probability = 3 / 20\<rparr>,
      \<lparr>prior_trait = ''Gatekeeper'', prior_category = ''socialRole'', prior_probability = 1 / 20\<rparr>,
      \<lparr>prior_trait = ''Mediator'', prior_category = ''socialRole'', prior_probability = 1 / 20\<rparr>]"
  by code_simp

lemma traits_attachmentStyle:
  "getTraitsForCategory PRIORS ''attachmentStyle'' =
     [\<lparr>prior_trait = ''Secure'', prior_category = ''attachmentStyle'', prior_probability = 11 / 20\<rparr>,
      \<lparr>prior_trait = ''Anxious'', prior_category = ''attachmentStyle'', prior_probability = 1 / 5\<rparr>,
      \<lparr>prior_trait = ''Avoidant'', prior_category = ''attachmentStyle'', prior_probability = 1 / 5\<rparr>,
      \<lparr>prior_trait = ''Fearful-Avoidant'', prior_category = ''attachmentStyle'', prior_probability = 1 / 20\<rparr>]"
  by code_simp

lemma multipliers_socialRole:
  "map (\<lambda>t. getLikelihoodMultiplier LIKELIHOOD_MULTIPLIERS ''Highly Introverted'' t)
       [''Leader'', ''Follower'', ''Connector'', ''Outlier'', ''Gatekeeper'', ''Mediator''] =
   [1, 1, 1, 2, 1, 1]"
  by code_simp

lemma scores_socialRole:
  "map (\<lambda>t. applyEvidence LIKELIHOOD_MULTIPLIERS t [\<lparr>ev_trait = ''Highly Introverted'', ev_probability = 1\<rparr>])
       (getTraitsForCategory PRIORS ''socialRole'') =
   [1 / 10, 1 / 2, 3 / 20, 3 / 10, 1 / 20, 1 / 20]"
  using multipliers_socialRole
  by (simp add: traits_socialRole applyEvidence_single_full)

lemma normalization_socialRole:
  "calculateNormalizationFactor PRIORS LIKELIHOOD_MULTIPLIERS ''socialRole''
     [\<lparr>ev_trait = ''Highly Introverted'', ev_probability = 1\<rparr>] = 23 / 20"
  unfolding calculateNormalizationFactor_sum scores_socialRole by simp

lemma posteriors_socialRole:
  "calculatePosteriors PRIORS LIKELIHOOD_MULTIPLIERS ''socialRole''
     [\<lparr>ev_trait = ''Highly Introverted'', ev_probability = 1\<rparr>] =
   [(''Leader'', 2 / 23), (''Follower'', 10 / 23), (''Connector'', 3 / 23),
    (''Outlier'', 6 / 23), (''Gatekeeper'', 1 / 23), (''Mediator'', 1 / 23)]"
  using scores_socialRole
  by (simp add: posteriors_program normalization_socialRole traits_socialRole)

lemma recommended_socialRole:
  "map_option recommendedTrait
     (getInferenceResult (performInference [\<lparr>ev_trait = ''Highly Introverted'', ev_probability = 1\<rparr>])
        ''socialRole'') = Some ''Follower''"
  by (simp add: getInferenceResult_def posteriors_lookup traits_socialRole posteriors_socialRole
       findHighestProbabilityTrait_def Let_def)

lemma posteriors_empty_evidence:
  "calculatePosteriors PRIORS LIKELIHOOD_MULTIPLIERS c [] =
     map (\<lambda>t. (prior_trait t,
                prior_probability t / sum_list (map prior_probability (getTraitsForCategory PRIORS c))))
         (getTraitsForCategory PRIORS c)"
  by (simp add: posteriors_program calculateNormalizationFactor_sum applyEvidence_Nil)

lemma posteriors_attachmentStyle:
  "calculatePosteriors PRIORS LIKELIHOOD_MULTIPLIERS ''attachmentStyle'' [] =
     [(''Secure'', 11 / 20), (''Anxious'', 1 / 5), (''Avoidant'', 1 / 5), (''Fearful-Avoidant'', 1 / 20)]"
  by (simp add: posteriors_empty_evidence traits_attachmentStyle)

lemma recommended_attachmentStyle:
  "map_option recommendedTrait (getInferenceResult (performInference []) ''attachmentStyle'') =
     Some ''Secure''"
  by (simp add: getInferenceResult_def posteriors_lookup traits_attachmentStyle
       posteriors_attachmentStyle findHighestProbabilityTrait_def Let_def)

lemma chess_is_no_evidence:
  "list_all (\<lambda>r. lm_evidence r \<noteq> ''Plays chess'') LIKELIHOOD_MULTIPLIERS"
  by code_simp


subsection \<open>The claims about the posterior computation\<close>

text \<open>
  C1. For the evidence list holding "Highly Introverted" with weight 1.0 and the category
  "socialRole", the unnormalized scores are Leader 0.10, Follower 0.50, Connector 0.15,
  Outlier 0.30, Gatekeeper 0.05 and Mediator 0.05 (the only multiplier other than 1 is the
  2.0 of Outlier), their sum is 1.15, \<open>calculatePosteriors\<close> returns these scores divided
  by 1.15 (0.087, 0.435, 0.130, 0.261, 0.043 and 0.043 to three decimals), and the
  recommended trait of \<open>getInferenceResult\<close> is "Follower".
\<close>

theorem C1_socialRole_scenario:
  "map (\<lambda>t. (prior_trait t, getLikelihoodMultiplier LIKELIHOOD_MULTIPLIERS ''Highly Introverted'' (prior_trait t)))
       (getTraitsForCategory PRIORS ''socialRole'') =
     [(''Leader'', 1.0), (''Follower'', 1.0), (''Connector'', 1.0), (''Outlier'', 2.0),
      (''Gatekeeper'', 1.0), (''Mediator'', 1.0)]
   \<and> map (\<lambda>t. (prior_trait t,
                 applyEvidence LIKELIHOOD_MULTIPLIERS t
                   [\<lparr>ev_trait = ''Highly Introverted'', ev_probability = 1.0\<rparr>]))
       (getTraitsForCategory PRIORS ''socialRole'') =
     [(''Leader'', 0.10), (''Follower'', 0.50), (''Connector'', 0.15), (''Outlier'', 0.30),
      (''Gatekeeper'', 0.05), (''Mediator'', 0.05)]
   \<and> calculateNormalizationFactor PRIORS LIKELIHOOD_MULTIPLIERS ''socialRole''
       [\<lparr>ev_trait = ''Highly Introverted'', ev_probability = 1.0\<rparr>] = 1.15
   \<and> calculatePosteriors PRIORS LIKELIHOOD_MULTIPLIERS ''socialRole''
       [\<lparr>ev_trait = ''Highly Introverted'', ev_probability = 1.0\<rparr>] =
     [(''Leader'', 0.10 / 1.15), (''Follower'', 0.50 / 1.15), (''Connector'', 0.15 / 1.15),
      (''Outlier'', 0.30 / 1.15), (''Gatekeeper'', 0.05 / 1.15), (''Mediator'', 0.05 / 1.15)]
   \<and> list_all2 (\<lambda>(trait, p) approx. \<bar>p - approx\<bar> < 0.0005)
       (calculatePosteriors PRIORS LIKELIHOOD_MULTIPLIERS ''socialRole''
          [\<lparr>ev_trait = ''Highly Introverted'', ev_probability = 1.0\<rparr>])
       [0.087, 0.435, 0.130, 0.261, 0.043, 0.043]
   \<and> map_option recommendedTrait
       (getInferenceResult
          (performInference [\<lparr>ev_trait = ''Highly Introverted'', ev_probability = 1.0\<rparr>])
          ''socialRole'') = Some ''Follower''"
  using multipliers_socialRole scores_socialRole
  by (simp add: traits_socialRole normalization_socialRole posteriors_socialRole
       recommended_socialRole)

text \<open>
  C2. For every category with at least one entry in the prior table and every evidence
  list whose weights lie in [0, 1], the posterior values that \<open>calculatePosteriors\<close>
  returns for the category sum to 0 or to 1. (The numbers are reals, so the sum is 1
  itself where the program is within rounding of it.)
\<close>

theorem C2_normalization:
  assumes "getTraitsForCategory PRIORS c \<noteq> []"
    and "list_all (\<lambda>ev. 0 \<le> ev_probability ev \<and> ev_probability ev \<le> 1) evs"
  shows "sum_list (map snd (calculatePosteriors PRIORS LIKELIHOOD_MULTIPLIERS c evs)) = 0 \<or>
         sum_list (map snd (calculatePosteriors PRIORS LIKELIHOOD_MULTIPLIERS c evs)) = 1"
  using assms(1) by (simp add: posteriors_sum_one)

theorem C2_normalization_witness:
  "getTraitsForCategory PRIORS ''socialRole'' \<noteq> []
   \<and> list_all (\<lambda>ev. 0 \<le> ev_probability ev \<and> ev_probability ev \<le> 1)
       [\<lparr>ev_trait = ''Highly Introverted'', ev_probability = 1\<rparr>]
   \<and> (sum_list (map snd (calculatePosteriors PRIORS LIKELIHOOD_MULTIPLIERS ''socialRole''
          [\<lparr>ev_trait = ''Highly Introverted'', ev_probability = 1\<rparr>])) = 0 \<or>
       sum_list (map snd (calculatePosteriors PRIORS LIKELIHOOD_MULTIPLIERS ''socialRole''
          [\<lparr>ev_trait = ''Highly Introverted'', ev_probability = 1\<rparr>])) = 1)"
proof -
  have h1: "getTraitsForCategory PRIORS ''socialRole'' \<noteq> []"
    by (simp add: traits_socialRole)
  have h2: "list_all (\<lambda>ev. 0 \<le> ev_probability ev \<and> ev_probability ev \<le> 1)
       [\<lparr>ev_trait = ''Highly Introverted'', ev_probability = 1\<rparr>]"
    by simp
  show ?thesis
    using h1 h2 C2_normalization [OF h1 h2] by blast
qed








text \<open>
  C4. For every evidence trait \<open>e\<close> that is the evidence of no row of the likelihood table
  (a trait that appears in no row is one), every weight and every category, the map that
  \<open>calculatePosteriors\<close> returns for an evidence list is the map it returns for the list
  with the entries of \<open>e\<close> removed; evidence that consists of such a trait alone gives the
  posteriors of the empty evidence list. This holds for every pair of tables.
\<close>

theorem C4_neutral_evidence:
  assumes "list_all (\<lambda>r. lm_evidence r \<noteq> e) L"
  shows "calculatePosteriors P L c evs =
           calculatePosteriors P L c (filter (\<lambda>x. ev_trait x \<noteq> e) evs)
         \<and> calculatePosteriors P L c [\<lparr>ev_trait = e, ev_probability = w\<rparr>] =
           calculatePosteriors P L c []"
proof -
  have "calculatePosteriors P L c xs =
        calculatePosteriors P L c (filter (\<lambda>x. ev_trait x \<noteq> e) xs)" for xs
    unfolding calculatePosteriors_def calculateNormalizationFactor_def
    by (simp add: applyEvidence_neutral [OF assms, of _ xs])
  from this [of evs] this [of "[\<lparr>ev_trait = e, ev_probability = w\<rparr>]"]
  show ?thesis by simp
qed

theorem C4_neutral_evidence_witness:
  "list_all (\<lambda>r. lm_evidence r \<noteq> ''Plays chess'') LIKELIHOOD_MULTIPLIERS
   \<and> calculatePosteriors PRIORS LIKELIHOOD_MULTIPLIERS ''socialRole''
       [\<lparr>ev_trait = ''Plays chess'', ev_probability = 1 / 2\<rparr>,
        \<lparr>ev_trait = ''Highly Introverted'', ev_probability = 1\<rparr>] =
     [(''Leader'', 2 / 23), (''Follower'', 10 / 23), (''Connector'', 3 / 23),
      (''Outlier'', 6 / 23), (''Gatekeeper'', 1 / 23), (''Mediator'', 1 / 23)]"
  using chess_is_no_evidence
    C4_neutral_evidence [OF chess_is_no_evidence, of PRIORS "''socialRole''"
      "[\<lparr>ev_trait = ''Plays chess'', ev_probability = 1 / 2\<rparr>,
        \<lparr>ev_trait = ''Highly Introverted'', ev_probability = 1\<rparr>]"]
  by (simp add: posteriors_socialRole)

text \<open>
  C5. For the empty evidence list \<open>calculatePosteriors\<close> returns, for every category, the
  priors of the category divided by their sum; on "attachmentStyle" the posteriors are the
  priors themselves (Secure 0.55, Anxious 0.20, Avoidant 0.20, Fearful-Avoidant 0.05) and
  the recommended trait of \<open>getInferenceResult\<close> is "Secure".
\<close>

theorem C5_empty_evidence:
  "calculatePosteriors PRIORS LIKELIHOOD_MULTIPLIERS c [] =
     map (\<lambda>t. (prior_trait t,
                prior_probability t / sum_list (map prior_probability (getTraitsForCategory PRIORS c))))
         (getTraitsForCategory PRIORS c)
   \<and> calculatePosteriors PRIORS LIKELIHOOD_MULTIPLIERS ''attachmentStyle'' [] =
     [(''Secure'', 0.55), (''Anxious'', 0.20), (''Avoidant'', 0.20), (''Fearful-Avoidant'', 0.05)]
   \<and> map_option recommendedTrait (getInferenceResult (performInference []) ''attachmentStyle'') =
     Some ''Secure''"
  using posteriors_empty_evidence [of c]
  by (simp add: posteriors_attachmentStyle recommended_attachmentStyle)


subsection \<open>Confidence\<close>

lemma sort_desc_length: "length (sort_desc xs) = length xs"
  by (simp add: sort_desc_def)

lemma sort_desc_mset: "mset (sort_desc xs) = mset xs"
  by (simp add: sort_desc_def)

lemma sort_desc_descending:
  assumes "sort_desc xs = y # ys" and "z \<in> set ys"
  shows "z \<le> y"
proof -
  have "sorted (map (\<lambda>x. - x) (sort_desc xs))"
    by (simp add: sort_desc_def)
  with assms show ?thesis by auto
qed

lemma sort_desc_top_two:
  assumes "sort_desc xs = y0 # y1 # rest"
  shows "largest xs = y0" and "second_largest xs = y1"
proof -
  have ms: "mset xs = mset (y0 # y1 # rest)"
    using assms sort_desc_mset [of xs] by simp
  then have s: "set xs = set (y0 # y1 # rest)"
    by (rule mset_eq_setD)
  have le0: "\<forall>z\<in>set (y1 # rest). z \<le> y0"
    using sort_desc_descending [OF assms] by blast
  show l: "largest xs = y0"
    unfolding largest_def s using le0 by (intro Max_eqI) auto
  have "sorted (map (\<lambda>x. - x) (sort_desc xs))"
    by (simp add: sort_desc_def)
  then have le1: "\<forall>z\<in>set rest. z \<le> y1"
    using assms by auto
  have "mset (remove1 y0 xs) = mset (y1 # rest)"
    using ms by simp
  then have "set (remove1 y0 xs) = set (y1 # rest)"
    by (rule mset_eq_setD)
  then show "second_largest xs = y1"
    unfolding second_largest_def l using le1 by (intro Max_eqI) auto
qed


text \<open>
  C6. For every posterior map, \<open>calculateConfidence\<close> returns 1 when the map has fewer
  than 2 entries, and otherwise \<open>min 1 (max 0 ((p1 - p2) * 3))\<close> where \<open>p1\<close> and \<open>p2\<close> are the
  largest and the second-largest posterior value; the confidence lies in [0, 1] whatever
  the gap is.
\<close>

theorem C6_confidence:
  "calculateConfidence m =
     (if length m < 2 then 1
      else min 1 (max 0 ((largest (map snd m) - second_largest (map snd m)) * 3)))
   \<and> 0 \<le> calculateConfidence m \<and> calculateConfidence m \<le> 1"
proof (cases "length m < 2")
  case True
  then show ?thesis
    by (simp add: calculateConfidence_def Let_def sort_desc_length)
next
  case False
  then have "length (sort_desc (map snd m)) \<ge> 2"
    by (simp add: sort_desc_length)
  then obtain y0 y1 rest where ys: "sort_desc (map snd m) = y0 # y1 # rest"
    by (metis One_nat_def Suc_1 Suc_le_length_iff)
  from sort_desc_top_two [OF ys] False show ?thesis
    by (simp add: calculateConfidence_def Let_def ys)
qed

theorem C6_confidence_witness:
  "calculateConfidence [(''a'', 0.9), (''b'', 0.1)] = 1
   \<and> calculateConfidence [(''a'', 0.2), (''b'', 0.3), (''c'', 0.5)] = 3 / 5
   \<and> calculateConfidence [(''a'', 0.7)] = 1"
  using C6_confidence [of "[(''a'', 0.9), (''b'', 0.1)]"]
    C6_confidence [of "[(''a'', 0.2), (''b'', 0.3), (''c'', 0.5)]"]
    C6_confidence [of "[(''a'', 0.7)]"]
  by (simp add: largest_def second_largest_def)


subsection \<open>The inference results that autocomplete consumes\<close>

lemma findHighest_aux:
  "foldl (\<lambda>(highestTrait, highestProbability) (trait, probability).
            if probability > highestProbability then (trait, probability)
            else (highestTrait, highestProbability)) acc xs = r \<Longrightarrow>
   (r = acc \<or> r \<in> set xs) \<and> snd acc \<le> snd r \<and> (\<forall>x\<in>set xs. snd x \<le> snd r)"
  for acc :: "string \<times> real"
proof (induction xs arbitrary: acc)
  case Nil
  then show ?case by simp
next
  case (Cons x xs)
  obtain ht hp where acc: "acc = (ht, hp)" by (cases acc)
  obtain t p where x: "x = (t, p)" by (cases x)
  show ?case
  proof (cases "p > hp")
    case True
    with Cons.prems acc x have "foldl (\<lambda>(highestTrait, highestProbability) (trait, probability).
            if probability > highestProbability then (trait, probability)
            else (highestTrait, highestProbability)) (t, p) xs = r" by simp
    from Cons.IH [OF this] True acc x show ?thesis by auto
  next
    case False
    with Cons.prems acc x have "foldl (\<lambda>(highestTrait, highestProbability) (trait, probability).
            if probability > highestProbability then (trait, probability)
            else (highestTrait, highestProbability)) (ht, hp) xs = r" by simp
    from Cons.IH [OF this] False acc x show ?thesis by auto
  qed
qed

lemma findHighest_member:
  assumes "xs \<noteq> []" and "\<forall>x\<in>set xs. 0 < snd x"
  shows "findHighestProbabilityTrait xs \<in> set xs"
proof -
  from assms(1) obtain x where x: "x \<in> set xs" by (cases xs) auto
  have a: "(findHighestProbabilityTrait xs = ('''', 0) \<or> findHighestProbabilityTrait xs \<in> set xs)
      \<and> (\<forall>x\<in>set xs. snd x \<le> snd (findHighestProbabilityTrait xs))"
    using findHighest_aux [of "('''', 0)" xs "findHighestProbabilityTrait xs"]
    by (simp add: findHighestProbabilityTrait_def)
  with x assms(2) have "0 < snd (findHighestProbabilityTrait xs)"
    by (meson less_le_trans)
  with a show ?thesis by auto
qed

lemma traitsObject_id:
  assumes "distinct (map fst cp)"
  shows "foldl (\<lambda>obj (trait, prob). AList.update trait prob obj) [] cp = cp"
proof -
  have eq: "(\<lambda>obj (trait, prob). AList.update trait prob obj) =
        (\<lambda>m t. AList.update (fst t) (snd t) m)"
    by (simp add: fun_eq_iff split_def)
  show ?thesis
    unfolding eq using foldl_update_distinct [OF assms, of "[]" snd] by simp
qed

lemma posteriors_keys:
  "map fst (calculatePosteriors PRIORS LIKELIHOOD_MULTIPLIERS c evs) =
     map prior_trait (getTraitsForCategory PRIORS c)"
  by (simp add: posteriors_program comp_def)

lemma posteriors_pos:
  assumes "x \<in> set (calculatePosteriors PRIORS LIKELIHOOD_MULTIPLIERS c evs)"
  shows "0 < snd x \<and> fst x \<noteq> []"
proof -
  from assms obtain t where t: "t \<in> set (getTraitsForCategory PRIORS c)"
    and x: "x = (prior_trait t,
                 applyEvidence LIKELIHOOD_MULTIPLIERS t evs /
                 calculateNormalizationFactor PRIORS LIKELIHOOD_MULTIPLIERS c evs)"
    by (auto simp: posteriors_program)
  from t have "getTraitsForCategory PRIORS c \<noteq> []" by auto
  then have "0 < calculateNormalizationFactor PRIORS LIKELIHOOD_MULTIPLIERS c evs"
    by (rule normalization_pos)
  with t x show ?thesis
    by (simp add: score_pos traits_pos)
qed

lemma inference_good:
  assumes "getTraitsForCategory PRIORS c \<noteq> []"
  shows "case getInferenceResult (performInference evs) c of
           None \<Rightarrow> False
         | Some r \<Rightarrow> recommendedTrait r \<noteq> [] \<and> traits r \<noteq> []"
proof -
  let ?cp = "calculatePosteriors PRIORS LIKELIHOOD_MULTIPLIERS c evs"
  have ne: "?cp \<noteq> []"
    using assms posteriors_keys [of c evs] by auto
  have "findHighestProbabilityTrait ?cp \<in> set ?cp"
    using ne posteriors_pos by (intro findHighest_member) auto
  then have rec: "fst (findHighestProbabilityTrait ?cp) \<noteq> []"
    using posteriors_pos by blast
  have "distinct (map fst ?cp)"
    by (simp add: posteriors_keys traits_distinct)
  then have obj: "foldl (\<lambda>obj (trait, prob). AList.update trait prob obj) [] ?cp = ?cp"
    by (rule traitsObject_id)
  obtain rt rp where fh: "findHighestProbabilityTrait ?cp = (rt, rp)"
    by (cases "findHighestProbabilityTrait ?cp")
  show ?thesis
    using assms ne rec
    by (simp add: getInferenceResult_def posteriors_lookup Let_def obj fh)
qed

lemma categories_PRIORS:
  "remdups (map prior_category PRIORS) =
     [''introversionExtroversion'', ''attachmentStyle'', ''trustLevel'', ''vulnerabilities'',
      ''socialRole'', ''communicationStyle'', ''communicationChannel'', ''desires'', ''fears'',
      ''trustTriggers'', ''emotionVsLogic'', ''decisionPacing'', ''identityAnchors'']"
  by code_simp

lemma category_known:
  assumes "c \<in> set autocomplete_categories"
  shows "getTraitsForCategory PRIORS c \<noteq> []"
proof -
  from assms have "c \<in> set (remdups (map prior_category PRIORS))"
    unfolding categories_PRIORS by (auto simp: autocomplete_categories_def)
  then show ?thesis
    by (auto simp: getTraitsForCategory_def filter_empty_conv)
qed

lemma inference_known:
  "c \<in> set autocomplete_categories \<Longrightarrow>
   (case getInferenceResult (performInference evs) c of
      None \<Rightarrow> False
    | Some r \<Rightarrow> recommendedTrait r \<noteq> [] \<and> traits r \<noteq> [])"
  by (rule inference_good [OF category_known])

lemma top3_Nil: "top3 xs = [] \<longleftrightarrow> xs = []"
proof -
  have "length (sort_key (\<lambda>(trait, probability). - probability) xs) = length xs"
    by simp
  then show ?thesis
    unfolding top3_def by (metis length_0_conv take_eq_Nil zero_neq_numeral)
qed

lemma emotionLogicValue_nonzero: "emotionLogicValue t \<noteq> 0"
  by (simp add: emotionLogicValue_def emotionLogicMap_def)

subsection \<open>The guarded assignments of autocomplete, field by field\<close>

text \<open>Each assignment leaves every field other than its own as it is.\<close>

lemma fill_introversionExtroversion_frame:
  "attachmentStyle (psychologicalProfile (fill_introversionExtroversion inference c)) = attachmentStyle (psychologicalProfile c)"
  "trustLevel (psychologicalProfile (fill_introversionExtroversion inference c)) = trustLevel (psychologicalProfile c)"
  "likelyVulnerabilities (psychologicalProfile (fill_introversionExtroversion inference c)) = likelyVulnerabilities (psychologicalProfile c)"
  "socialHierarchyPosition (fill_introversionExtroversion inference c) = socialHierarchyPosition c"
  "motivationsInsecurities (fill_introversionExtroversion inference c) = motivationsInsecurities c"
  "trustSignalsVulnerabilityMarkers (fill_introversionExtroversion inference c) = trustSignalsVulnerabilityMarkers c"
  "communication (fill_introversionExtroversion inference c) = communication c"
  "decisionMaking (fill_introversionExtroversion inference c) = decisionMaking c"
  "identityAnchors (fill_introversionExtroversion inference c) = identityAnchors c"
  by (simp_all add: fill_introversionExtroversion_def split: option.splits)

lemma fill_attachmentStyle_frame:
  "introversionExtroversion (psychologicalProfile (fill_attachmentStyle inference c)) = introversionExtroversion (psychologicalProfile c)"
  "trustLevel (psychologicalProfile (fill_attachmentStyle inference c)) = trustLevel (psychologicalProfile c)"
  "likelyVulnerabilities (psychologicalProfile (fill_attachmentStyle inference c)) = likelyVulnerabilities (psychologicalProfile c)"
  "socialHierarchyPosition (fill_attachmentStyle inference c) = socialHierarchyPosition c"
  "motivationsInsecurities (fill_attachmentStyle inference c) = motivationsInsecurities c"
  "trustSignalsVulnerabilityMarkers (fill_attachmentStyle inference c) = trustSignalsVulnerabilityMarkers c"
  "communication (fill_attachmentStyle inference c) = communication c"
  "decisionMaking (fill_attachmentStyle inference c) = decisionMaking c"
  "identityAnchors (fill_attachmentStyle inference c) = identityAnchors c"
  by (simp_all add: fill_attachmentStyle_def split: option.splits)

lemma fill_trustLevel_frame:
  "introversionExtroversion (psychologicalProfile (fill_trustLevel inference c)) = introversionExtroversion (psychologicalProfile c)"
  "attachmentStyle (psychologicalProfile (fill_trustLevel inference c)) = attachmentStyle (psychologicalProfile c)"
  "likelyVulnerabilities (psychologicalProfile (fill_trustLevel inference c)) = likelyVulnerabilities (psychologicalProfile c)"
  "socialHierarchyPosition (fill_trustLevel inference c) = socialHierarchyPosition c"
  "motivationsInsecurities (fill_trustLevel inference c) = motivationsInsecurities c"
  "trustSignalsVulnerabilityMarkers (fill_trustLevel inference c) = trustSignalsVulnerabilityMarkers c"
  "communication (fill_trustLevel inference c) = communication c"
  "decisionMaking (fill_trustLevel inference c) = decisionMaking c"
  "identityAnchors (fill_trustLevel inference c) = identityAnchors c"
  by (simp_all add: fill_trustLevel_def split: option.splits)

lemma fill_likelyVulnerabilities_frame:
  "introversionExtroversion (psychologicalProfile (fill_likelyVulnerabilities inference c)) = introversionExtroversion (psychologicalProfile c)"
  "attachmentStyle (psychologicalProfile (fill_likelyVulnerabilities inference c)) = attachmentStyle (psychologicalProfile c)"
  "trustLevel (psychologicalProfile (fill_likelyVulnerabilities inference c)) = trustLevel (psychologicalProfile c)"
  "socialHierarchyPosition (fill_likelyVulnerabilities inference c) = socialHierarchyPosition c"
  "motivationsInsecurities (fill_likelyVulnerabilities inference c) = motivationsInsecurities c"
  "trustSignalsVulnerabilityMarkers (fill_likelyVulnerabilities inference c) = trustSignalsVulnerabilityMarkers c"
  "communication (fill_likelyVulnerabilities inference c) = communication c"
  "decisionMaking (fill_likelyVulnerabilities inference c) = decisionMaking c"
  "identityAnchors (fill_likelyVulnerabilities inference c) = identityAnchors c"
  by (simp_all add: fill_likelyVulnerabilities_def split: option.splits)

lemma fill_role_frame:
  "psychologicalProfile (fill_role inference c) = psychologicalProfile c"
  "motivationsInsecurities (fill_role inference c) = motivationsInsecurities c"
  "trustSignalsVulnerabilityMarkers (fill_role inference c) = trustSignalsVulnerabilityMarkers c"
  "communication (fill_role inference c) = communication c"
  "decisionMaking (fill_role inference c) = decisionMaking c"
  "identityAnchors (fill_role inference c) = identityAnchors c"
  by (simp_all add: fill_role_def split: option.splits)

lemma fill_primaryStyle_frame:
  "psychologicalProfile (fill_primaryStyle inference c) = psychologicalProfile c"
  "socialHierarchyPosition (fill_primaryStyle inference c) = socialHierarchyPosition c"
  "motivationsInsecurities (fill_primaryStyle inference c) = motivationsInsecurities c"
  "trustSignalsVulnerabilityMarkers (fill_primaryStyle inference c) = trustSignalsVulnerabilityMarkers c"
  "decisionMaking (fill_primaryStyle inference c) = decisionMaking c"
  "identityAnchors (fill_primaryStyle inference c) = identityAnchors c"
  by (simp_all add: fill_primaryStyle_def split: option.splits)

lemma fill_emotionVsLogic_frame:
  "psychologicalProfile (fill_emotionVsLogic inference c) = psychologicalProfile c"
  "socialHierarchyPosition (fill_emotionVsLogic inference c) = socialHierarchyPosition c"
  "motivationsInsecurities (fill_emotionVsLogic inference c) = motivationsInsecurities c"
  "trustSignalsVulnerabilityMarkers (fill_emotionVsLogic inference c) = trustSignalsVulnerabilityMarkers c"
  "communication (fill_emotionVsLogic inference c) = communication c"
  "pacing (decisionMaking (fill_emotionVsLogic inference c)) = pacing (decisionMaking c)"
  "identityAnchors (fill_emotionVsLogic inference c) = identityAnchors c"
  by (simp_all add: fill_emotionVsLogic_def split: option.splits)

lemma fill_pacing_frame:
  "psychologicalProfile (fill_pacing inference c) = psychologicalProfile c"
  "socialHierarchyPosition (fill_pacing inference c) = socialHierarchyPosition c"
  "motivationsInsecurities (fill_pacing inference c) = motivationsInsecurities c"
  "trustSignalsVulnerabilityMarkers (fill_pacing inference c) = trustSignalsVulnerabilityMarkers c"
  "communication (fill_pacing inference c) = communication c"
  "emotionVsLogic (decisionMaking (fill_pacing inference c)) = emotionVsLogic (decisionMaking c)"
  "identityAnchors (fill_pacing inference c) = identityAnchors c"
  by (simp_all add: fill_pacing_def split: option.splits)

lemma fill_desires_frame:
  "psychologicalProfile (fill_desires inference c) = psychologicalProfile c"
  "socialHierarchyPosition (fill_desires inference c) = socialHierarchyPosition c"
  "fears (motivationsInsecurities (fill_desires inference c)) = fears (motivationsInsecurities c)"
  "trustSignalsVulnerabilityMarkers (fill_desires inference c) = trustSignalsVulnerabilityMarkers c"
  "communication (fill_desires inference c) = communication c"
  "decisionMaking (fill_desires inference c) = decisionMaking c"
  "identityAnchors (fill_desires inference c) = identityAnchors c"
  by (simp_all add: fill_desires_def split: option.splits)

lemma fill_fears_frame:
  "psychologicalProfile (fill_fears inference c) = psychologicalProfile c"
  "socialHierarchyPosition (fill_fears inference c) = socialHierarchyPosition c"
  "desires (motivationsInsecurities (fill_fears inference c)) = desires (motivationsInsecurities c)"
  "trustSignalsVulnerabilityMarkers (fill_fears inference c) = trustSignalsVulnerabilityMarkers c"
  "communication (fill_fears inference c) = communication c"
  "decisionMaking (fill_fears inference c) = decisionMaking c"
  "identityAnchors (fill_fears inference c) = identityAnchors c"
  by (simp_all add: fill_fears_def split: option.splits)

lemma fill_triggers_frame:
  "psychologicalProfile (fill_triggers inference c) = psychologicalProfile c"
  "socialHierarchyPosition (fill_triggers inference c) = socialHierarchyPosition c"
  "motivationsInsecurities (fill_triggers inference c) = motivationsInsecurities c"
  "communication (fill_triggers inference c) = communication c"
  "decisionMaking (fill_triggers inference c) = decisionMaking c"
  "identityAnchors (fill_triggers inference c) = identityAnchors c"
  by (simp_all add: fill_triggers_def split: option.splits)

lemma fill_coreAnchors_frame:
  "psychologicalProfile (fill_coreAnchors inference c) = psychologicalProfile c"
  "socialHierarchyPosition (fill_coreAnchors inference c) = socialHierarchyPosition c"
  "motivationsInsecurities (fill_coreAnchors inference c) = motivationsInsecurities c"
  "trustSignalsVulnerabilityMarkers (fill_coreAnchors inference c) = trustSignalsVulnerabilityMarkers c"
  "communication (fill_coreAnchors inference c) = communication c"
  "decisionMaking (fill_coreAnchors inference c) = decisionMaking c"
  by (simp_all add: fill_coreAnchors_def split: option.splits)

text \<open>Each assignment leaves its own field as it is when the field is truthy.\<close>

lemma fill_introversionExtroversion_keep:
  "introversionExtroversion (psychologicalProfile c) \<noteq> [] \<Longrightarrow> introversionExtroversion (psychologicalProfile (fill_introversionExtroversion inference c)) = introversionExtroversion (psychologicalProfile c)"
  by (simp add: fill_introversionExtroversion_def)

lemma fill_attachmentStyle_keep:
  "attachmentStyle (psychologicalProfile c) \<noteq> [] \<Longrightarrow> attachmentStyle (psychologicalProfile (fill_attachmentStyle inference c)) = attachmentStyle (psychologicalProfile c)"
  by (simp add: fill_attachmentStyle_def)

lemma fill_trustLevel_keep:
  "trustLevel (psychologicalProfile c) \<noteq> [] \<Longrightarrow> trustLevel (psychologicalProfile (fill_trustLevel inference c)) = trustLevel (psychologicalProfile c)"
  by (simp add: fill_trustLevel_def)

lemma fill_likelyVulnerabilities_keep:
  "likelyVulnerabilities (psychologicalProfile c) \<noteq> [] \<Longrightarrow> likelyVulnerabilities (psychologicalProfile (fill_likelyVulnerabilities inference c)) = likelyVulnerabilities (psychologicalProfile c)"
  by (simp add: fill_likelyVulnerabilities_def)

lemma fill_role_keep:
  "role (socialHierarchyPosition c) \<noteq> [] \<Longrightarrow> role (socialHierarchyPosition (fill_role inference c)) = role (socialHierarchyPosition c)"
  by (simp add: fill_role_def)

lemma fill_primaryStyle_keep:
  "primaryStyle (communication c) \<noteq> [] \<Longrightarrow> primaryStyle (communication (fill_primaryStyle inference c)) = primaryStyle (communication c)"
  by (simp add: fill_primaryStyle_def)

lemma fill_emotionVsLogic_keep:
  "emotionVsLogic (decisionMaking c) \<noteq> 0 \<Longrightarrow> emotionVsLogic (decisionMaking (fill_emotionVsLogic inference c)) = emotionVsLogic (decisionMaking c)"
  by (simp add: fill_emotionVsLogic_def)

lemma fill_pacing_keep:
  "pacing (decisionMaking c) \<noteq> [] \<Longrightarrow> pacing (decisionMaking (fill_pacing inference c)) = pacing (decisionMaking c)"
  by (simp add: fill_pacing_def)

lemma fill_desires_keep:
  "desires (motivationsInsecurities c) \<noteq> [] \<Longrightarrow> desires (motivationsInsecurities (fill_desires inference c)) = desires (motivationsInsecurities c)"
  by (simp add: fill_desires_def)

lemma fill_fears_keep:
  "fears (motivationsInsecurities c) \<noteq> [] \<Longrightarrow> fears (motivationsInsecurities (fill_fears inference c)) = fears (motivationsInsecurities c)"
  by (simp add: fill_fears_def)

lemma fill_triggers_keep:
  "triggers (trustSignalsVulnerabilityMarkers c) \<noteq> [] \<Longrightarrow> triggers (trustSignalsVulnerabilityMarkers (fill_triggers inference c)) = triggers (trustSignalsVulnerabilityMarkers c)"
  by (simp add: fill_triggers_def)

lemma fill_coreAnchors_keep:
  "coreAnchors (identityAnchors c) \<noteq> [] \<Longrightarrow> coreAnchors (identityAnchors (fill_coreAnchors inference c)) = coreAnchors (identityAnchors c)"
  by (simp add: fill_coreAnchors_def)

lemma fill_introversionExtroversion_id:
  "introversionExtroversion (psychologicalProfile c) \<noteq> [] \<Longrightarrow> fill_introversionExtroversion inference c = c"
  by (simp add: fill_introversionExtroversion_def)

lemma fill_attachmentStyle_id:
  "attachmentStyle (psychologicalProfile c) \<noteq> [] \<Longrightarrow> fill_attachmentStyle inference c = c"
  by (simp add: fill_attachmentStyle_def)

lemma fill_trustLevel_id:
  "trustLevel (psychologicalProfile c) \<noteq> [] \<Longrightarrow> fill_trustLevel inference c = c"
  by (simp add: fill_trustLevel_def)

lemma fill_likelyVulnerabilities_id:
  "likelyVulnerabilities (psychologicalProfile c) \<noteq> [] \<Longrightarrow> fill_likelyVulnerabilities inference c = c"
  by (simp add: fill_likelyVulnerabilities_def)

lemma fill_role_id:
  "role (socialHierarchyPosition c) \<noteq> [] \<Longrightarrow> fill_role inference c = c"
  by (simp add: fill_role_def)

lemma fill_primaryStyle_id:
  "primaryStyle (communication c) \<noteq> [] \<Longrightarrow> fill_primaryStyle inference c = c"
  by (simp add: fill_primaryStyle_def)

lemma fill_emotionVsLogic_id:
  "emotionVsLogic (decisionMaking c) \<noteq> 0 \<Longrightarrow> fill_emotionVsLogic inference c = c"
  by (simp add: fill_emotionVsLogic_def)

lemma fill_pacing_id:
  "pacing (decisionMaking c) \<noteq> [] \<Longrightarrow> fill_pacing inference c = c"
  by (simp add: fill_pacing_def)

lemma fill_desires_id:
  "desires (motivationsInsecurities c) \<noteq> [] \<Longrightarrow> fill_desires inference c = c"
  by (simp add: fill_desires_def)

lemma fill_fears_id:
  "fears (motivationsInsecurities c) \<noteq> [] \<Longrightarrow> fill_fears inference c = c"
  by (simp add: fill_fears_def)

lemma fill_triggers_id:
  "triggers (trustSignalsVulnerabilityMarkers c) \<noteq> [] \<Longrightarrow> fill_triggers inference c = c"
  by (simp add: fill_triggers_def)

lemma fill_coreAnchors_id:
  "coreAnchors (identityAnchors c) \<noteq> [] \<Longrightarrow> fill_coreAnchors inference c = c"
  by (simp add: fill_coreAnchors_def)

text \<open>
  With the inference of the program, each assignment leaves its own field truthy: the
  recommended trait is never empty, a top-3 list is never empty and no anchor of the
  emotion map is 0.
\<close>

lemma fill_introversionExtroversion_sets:
  "introversionExtroversion (psychologicalProfile (fill_introversionExtroversion (performInference evs) c)) \<noteq> []"
  using inference_known [of "''introversionExtroversion''" evs]
  by (auto simp: fill_introversionExtroversion_def autocomplete_categories_def split: option.splits)

lemma fill_attachmentStyle_sets:
  "attachmentStyle (psychologicalProfile (fill_attachmentStyle (performInference evs) c)) \<noteq> []"
  using inference_known [of "''attachmentStyle''" evs]
  by (auto simp: fill_attachmentStyle_def autocomplete_categories_def split: option.splits)

lemma fill_trustLevel_sets:
  "trustLevel (psychologicalProfile (fill_trustLevel (performInference evs) c)) \<noteq> []"
  using inference_known [of "''trustLevel''" evs]
  by (auto simp: fill_trustLevel_def autocomplete_categories_def split: option.splits)

lemma fill_likelyVulnerabilities_sets:
  "likelyVulnerabilities (psychologicalProfile (fill_likelyVulnerabilities (performInference evs) c)) \<noteq> []"
  using inference_known [of "''vulnerabilities''" evs]
  by (auto simp: fill_likelyVulnerabilities_def autocomplete_categories_def top3_Nil split: option.splits)

lemma fill_role_sets:
  "role (socialHierarchyPosition (fill_role (performInference evs) c)) \<noteq> []"
  using inference_known [of "''socialRole''" evs]
  by (auto simp: fill_role_def autocomplete_categories_def split: option.splits)

lemma fill_primaryStyle_sets:
  "primaryStyle (communication (fill_primaryStyle (performInference evs) c)) \<noteq> []"
  using inference_known [of "''communicationStyle''" evs]
  by (auto simp: fill_primaryStyle_def autocomplete_categories_def split: option.splits)

lemma fill_emotionVsLogic_sets:
  "emotionVsLogic (decisionMaking (fill_emotionVsLogic (performInference evs) c)) \<noteq> 0"
  using inference_known [of "''emotionVsLogic''" evs]
  by (auto simp: fill_emotionVsLogic_def autocomplete_categories_def emotionLogicValue_nonzero split: option.splits)

lemma fill_pacing_sets:
  "pacing (decisionMaking (fill_pacing (performInference evs) c)) \<noteq> []"
  using inference_known [of "''decisionPacing''" evs]
  by (auto simp: fill_pacing_def autocomplete_categories_def split: option.splits)

lemma fill_desires_sets:
  "desires (motivationsInsecurities (fill_desires (performInference evs) c)) \<noteq> []"
  using inference_known [of "''desires''" evs]
  by (auto simp: fill_desires_def autocomplete_categories_def top3_Nil split: option.splits)

lemma fill_fears_sets:
  "fears (motivationsInsecurities (fill_fears (performInference evs) c)) \<noteq> []"
  using inference_known [of "''fears''" evs]
  by (auto simp: fill_fears_def autocomplete_categories_def top3_Nil split: option.splits)

lemma fill_triggers_sets:
  "triggers (trustSignalsVulnerabilityMarkers (fill_triggers (performInference evs) c)) \<noteq> []"
  using inference_known [of "''trustTriggers''" evs]
  by (auto simp: fill_triggers_def autocomplete_categories_def top3_Nil split: option.splits)

lemma fill_coreAnchors_sets:
  "coreAnchors (identityAnchors (fill_coreAnchors (performInference evs) c)) \<noteq> []"
  using inference_known [of "''identityAnchors''" evs]
  by (auto simp: fill_coreAnchors_def autocomplete_categories_def top3_Nil split: option.splits)

lemmas fill_frame =
  fill_introversionExtroversion_frame fill_attachmentStyle_frame fill_trustLevel_frame fill_likelyVulnerabilities_frame fill_role_frame fill_primaryStyle_frame fill_emotionVsLogic_frame fill_pacing_frame fill_desires_frame fill_fears_frame fill_triggers_frame fill_coreAnchors_frame

lemmas fill_sets =
  fill_introversionExtroversion_sets fill_attachmentStyle_sets fill_trustLevel_sets fill_likelyVulnerabilities_sets fill_role_sets fill_primaryStyle_sets fill_emotionVsLogic_sets fill_pacing_sets fill_desires_sets fill_fears_sets fill_triggers_sets fill_coreAnchors_sets

lemmas fill_keep =
  fill_introversionExtroversion_keep fill_attachmentStyle_keep fill_trustLevel_keep fill_likelyVulnerabilities_keep fill_role_keep fill_primaryStyle_keep fill_emotionVsLogic_keep fill_pacing_keep fill_desires_keep fill_fears_keep fill_triggers_keep fill_coreAnchors_keep

lemmas fill_id =
  fill_introversionExtroversion_id fill_attachmentStyle_id fill_trustLevel_id fill_likelyVulnerabilities_id fill_role_id fill_primaryStyle_id fill_emotionVsLogic_id fill_pacing_id fill_desires_id fill_fears_id fill_triggers_id fill_coreAnchors_id

lemma autocomplete_populated: "populated (autocompleteCharacter p)"
  unfolding populated_def autocompleteCharacter_def Let_def
  by (simp add: fill_frame fill_sets)

lemma populated_fixed: "populated c \<Longrightarrow> autocompleteCharacter c = c"
  by (simp add: populated_def autocompleteCharacter_def Let_def fill_id)

text \<open>
  What holds of the frame of autocomplete: a field that is truthy in the input (a
  non-empty string, a non-empty list, a number other than 0) has the same value in the
  result.
\<close>

lemma autocomplete_keeps_truthy:
  "introversionExtroversion (psychologicalProfile p) \<noteq> [] \<Longrightarrow>
     introversionExtroversion (psychologicalProfile (autocompleteCharacter p)) =
     introversionExtroversion (psychologicalProfile p)"
  "attachmentStyle (psychologicalProfile p) \<noteq> [] \<Longrightarrow>
     attachmentStyle (psychologicalProfile (autocompleteCharacter p)) =
     attachmentStyle (psychologicalProfile p)"
  "trustLevel (psychologicalProfile p) \<noteq> [] \<Longrightarrow>
     trustLevel (psychologicalProfile (autocompleteCharacter p)) = trustLevel (psychologicalProfile p)"
  "likelyVulnerabilities (psychologicalProfile p) \<noteq> [] \<Longrightarrow>
     likelyVulnerabilities (psychologicalProfile (autocompleteCharacter p)) =
     likelyVulnerabilities (psychologicalProfile p)"
  "role (socialHierarchyPosition p) \<noteq> [] \<Longrightarrow>
     role (socialHierarchyPosition (autocompleteCharacter p)) = role (socialHierarchyPosition p)"
  "primaryStyle (communication p) \<noteq> [] \<Longrightarrow>
     primaryStyle (communication (autocompleteCharacter p)) = primaryStyle (communication p)"
  "emotionVsLogic (decisionMaking p) \<noteq> 0 \<Longrightarrow>
     emotionVsLogic (decisionMaking (autocompleteCharacter p)) = emotionVsLogic (decisionMaking p)"
  "pacing (decisionMaking p) \<noteq> [] \<Longrightarrow>
     pacing (decisionMaking (autocompleteCharacter p)) = pacing (decisionMaking p)"
  "desires (motivationsInsecurities p) \<noteq> [] \<Longrightarrow>
     desires (motivationsInsecurities (autocompleteCharacter p)) = desires (motivationsInsecurities p)"
  "fears (motivationsInsecurities p) \<noteq> [] \<Longrightarrow>
     fears (motivationsInsecurities (autocompleteCharacter p)) = fears (motivationsInsecurities p)"
  "triggers (trustSignalsVulnerabilityMarkers p) \<noteq> [] \<Longrightarrow>
     triggers (trustSignalsVulnerabilityMarkers (autocompleteCharacter p)) =
     triggers (trustSignalsVulnerabilityMarkers p)"
  "coreAnchors (identityAnchors p) \<noteq> [] \<Longrightarrow>
     coreAnchors (identityAnchors (autocompleteCharacter p)) = coreAnchors (identityAnchors p)"
  by (simp_all add: autocompleteCharacter_def Let_def fill_frame fill_keep)


subsection \<open>The claims about autocomplete\<close>

lemma evidence_purely_logical:
  "extractEvidenceFromCharacter purely_logical_character =
     [\<lparr>ev_trait = ''Ambivert'', ev_probability = 1\<rparr>,
      \<lparr>ev_trait = ''Secure'', ev_probability = 1\<rparr>,
      \<lparr>ev_trait = ''Neutral'', ev_probability = 1\<rparr>,
      \<lparr>ev_trait = ''Follower'', ev_probability = 1\<rparr>,
      \<lparr>ev_trait = ''Direct'', ev_probability = 1\<rparr>]"
  by (simp add: extractEvidenceFromCharacter_def purely_logical_character_def createNewCharacter_def)

lemma traits_emotionVsLogic:
  "getTraitsForCategory PRIORS ''emotionVsLogic'' =
     [\<lparr>prior_trait = ''Highly emotional'', prior_category = ''emotionVsLogic'', prior_probability = 1 / 10\<rparr>,
      \<lparr>prior_trait = ''Moderately emotional'', prior_category = ''emotionVsLogic'', prior_probability = 1 / 4\<rparr>,
      \<lparr>prior_trait = ''Balanced'', prior_category = ''emotionVsLogic'', prior_probability = 3 / 10\<rparr>,
      \<lparr>prior_trait = ''Moderately logical'', prior_category = ''emotionVsLogic'', prior_probability = 1 / 4\<rparr>,
      \<lparr>prior_trait = ''Highly logical'', prior_category = ''emotionVsLogic'', prior_probability = 1 / 10\<rparr>]"
  by code_simp

lemma multipliers_emotionVsLogic:
  "map (\<lambda>t. map (\<lambda>e. getLikelihoodMultiplier LIKELIHOOD_MULTIPLIERS e t)
              [''Ambivert'', ''Secure'', ''Neutral'', ''Follower'', ''Direct''])
       [''Highly emotional'', ''Moderately emotional'', ''Balanced'', ''Moderately logical'',
        ''Highly logical''] =
   [[1, 1, 1, 1, 1], [1, 1, 1, 1, 1], [1, 17 / 10, 1, 1, 1], [1, 1, 1, 1, 1], [1, 1, 1, 1, 1]]"
  by code_simp

lemma scores_emotionVsLogic:
  "map (\<lambda>t. applyEvidence LIKELIHOOD_MULTIPLIERS t (extractEvidenceFromCharacter purely_logical_character))
       (getTraitsForCategory PRIORS ''emotionVsLogic'') =
   [1 / 10, 1 / 4, 51 / 100, 1 / 4, 1 / 10]"
  using multipliers_emotionVsLogic
  by (simp add: evidence_purely_logical traits_emotionVsLogic applyEvidence_def Math_pow_def)

lemma normalization_emotionVsLogic:
  "calculateNormalizationFactor PRIORS LIKELIHOOD_MULTIPLIERS ''emotionVsLogic''
     (extractEvidenceFromCharacter purely_logical_character) = 121 / 100"
  unfolding calculateNormalizationFactor_sum scores_emotionVsLogic by simp

lemma posteriors_emotionVsLogic:
  "calculatePosteriors PRIORS LIKELIHOOD_MULTIPLIERS ''emotionVsLogic''
     (extractEvidenceFromCharacter purely_logical_character) =
   [(''Highly emotional'', 10 / 121), (''Moderately emotional'', 25 / 121), (''Balanced'', 51 / 121),
    (''Moderately logical'', 25 / 121), (''Highly logical'', 10 / 121)]"
  using scores_emotionVsLogic
  by (simp add: posteriors_program normalization_emotionVsLogic traits_emotionVsLogic)

lemma recommended_emotionVsLogic:
  "map_option recommendedTrait
     (getInferenceResult (performInference (extractEvidenceFromCharacter purely_logical_character))
        ''emotionVsLogic'') = Some ''Balanced''"
  by (simp add: getInferenceResult_def posteriors_lookup traits_emotionVsLogic posteriors_emotionVsLogic
       findHighestProbabilityTrait_def Let_def)


text \<open>
  C7. The claim: \<open>autocompleteCharacter\<close> returns a new profile in which every recognized
  field that is populated in the input has the value it had. The guard of the
  emotion-versus-logic field is \<^verbatim>\<open>!completedCharacter.decisionMaking.emotionVsLogic\<close>,
  which is true of the number 0, the value that \<^verbatim>\<open>DecisionMaking\<close> documents as "purely
  logical" and the left end of the form's slider. On a new character with that value
  autocomplete replaces the 0 by 0.5, the anchor of the recommended trait "Balanced".
  (Every field that is truthy in the input does keep its value: \<open>autocomplete_keeps_truthy\<close>.)
\<close>

theorem C7_user_zero_overwritten:
  "emotionVsLogic (decisionMaking purely_logical_character) = 0
   \<and> emotionVsLogic (decisionMaking (autocompleteCharacter purely_logical_character)) = 0.5"
proof -
  have zero: "emotionVsLogic (decisionMaking purely_logical_character) = 0"
    by (simp add: purely_logical_character_def)
  obtain r where r: "getInferenceResult
        (performInference (extractEvidenceFromCharacter purely_logical_character)) ''emotionVsLogic'' = Some r"
    and rec: "recommendedTrait r = ''Balanced''"
    using recommended_emotionVsLogic by auto
  have "emotionVsLogic (decisionMaking (autocompleteCharacter purely_logical_character)) =
        emotionLogicValue ''Balanced''"
    unfolding autocompleteCharacter_def Let_def
    by (simp add: fill_frame fill_emotionVsLogic_def zero r rec)
  with zero show ?thesis
    by (simp add: emotionLogicValue_def emotionLogicMap_def)
qed


text \<open>
  C8. \<open>autocompleteCharacter\<close> is idempotent: for every profile \<open>p\<close>, running it on its own
  result gives that result again. The first run leaves every guarded field truthy, so
  every guard of the second run is false.
\<close>

theorem C8_autocomplete_idempotent:
  "autocompleteCharacter (autocompleteCharacter p) = autocompleteCharacter p"
  by (rule populated_fixed [OF autocomplete_populated])


subsection \<open>The claims about compatibility\<close>

text \<open>
  The numeric value that the source gives to a bucket is its place on the five-point
  scale: 0 for "Highly Introverted" up to 4 for "Highly Extroverted".
\<close>

lemma spec_introversion_ordinal_code:
  "getIntroversionExtroversionValue bucket = spec_introversion_ordinal bucket"
  by (simp add: getIntroversionExtroversionValue_def spec_introversion_ordinal_def
       spec_introversion_scale_def)

lemma calculateCompatibility_factors:
  "calculateCompatibility a b =
     (spec_attachment_factor (attachmentStyle (psychologicalProfile a)) (attachmentStyle (psychologicalProfile b)) +
      spec_introversion_factor (introversionExtroversion (psychologicalProfile a))
        (introversionExtroversion (psychologicalProfile b)) +
      spec_communication_factor (primaryStyle (communication a)) (primaryStyle (communication b)) +
      spec_decision_factor (emotionVsLogic (decisionMaking a)) (emotionVsLogic (decisionMaking b))) / 4"
  by (auto simp: calculateCompatibility_def Let_def spec_attachment_factor_def
       spec_introversion_factor_def spec_introversion_ordinal_code
       spec_communication_factor_def spec_decision_factor_def)

lemma spec_attachment_factor_sym: "spec_attachment_factor a b = spec_attachment_factor b a"
  by (auto simp: spec_attachment_factor_def)

lemma spec_introversion_factor_sym: "spec_introversion_factor a b = spec_introversion_factor b a"
  by (simp add: spec_introversion_factor_def abs_minus_commute)

lemma spec_communication_factor_sym: "spec_communication_factor a b = spec_communication_factor b a"
  by (auto simp: spec_communication_factor_def)

lemma spec_decision_factor_sym: "spec_decision_factor x y = spec_decision_factor y x"
  by (simp add: spec_decision_factor_def abs_minus_commute)

lemma introversion_values:
  "map getIntroversionExtroversionValue
     [''Highly Introverted'', ''Introverted'', ''Ambivert'', ''Extroverted'', ''Highly Extroverted''] =
   [0, 1, 2, 3, 4]"
  by (simp add: getIntroversionExtroversionValue_def)

lemma introversion_ends: "spec_introversion_factor ''Highly Introverted'' ''Highly Extroverted'' = 0"
  by (simp add: spec_introversion_factor_def spec_introversion_ordinal_def spec_introversion_scale_def)

text \<open>
  C9. For every pair of profiles \<open>calculateCompatibility\<close> is the unweighted mean of four
  factors: the attachment pairing (both Secure 1.0, Anxious with Avoidant 0.3 in either
  direction, otherwise 0.5), the introversion distance (1 minus the absolute difference
  of the ordinals, divided by 4, where the five buckets from "Highly Introverted" to
  "Highly Extroverted" have the ordinals 0, 1, 2, 3 and 4, so that the two ends of the
  scale have the factor 0), the communication pairing (same style 1.0, Direct with
  Indirect 0.4 in either direction, otherwise 0.6) and the decision factor (1 minus the
  absolute difference of the two emotion-versus-logic values). Two profiles that are both
  Secure, in the same introversion bucket, both Direct, with emotion-versus-logic 0.4 and
  0.6, score 0.95.
\<close>

theorem C9_compatibility_mean:
  "calculateCompatibility a b =
     (spec_attachment_factor (attachmentStyle (psychologicalProfile a)) (attachmentStyle (psychologicalProfile b)) +
      spec_introversion_factor (introversionExtroversion (psychologicalProfile a))
        (introversionExtroversion (psychologicalProfile b)) +
      spec_communication_factor (primaryStyle (communication a)) (primaryStyle (communication b)) +
      spec_decision_factor (emotionVsLogic (decisionMaking a)) (emotionVsLogic (decisionMaking b))) / 4
   \<and> map getIntroversionExtroversionValue
       [''Highly Introverted'', ''Introverted'', ''Ambivert'', ''Extroverted'', ''Highly Extroverted''] =
     [0, 1, 2, 3, 4]
   \<and> spec_introversion_factor ''Highly Introverted'' ''Highly Extroverted'' = 0
   \<and> (attachmentStyle (psychologicalProfile a) = ''Secure'' \<and>
       attachmentStyle (psychologicalProfile b) = ''Secure'' \<and>
       introversionExtroversion (psychologicalProfile a) = introversionExtroversion (psychologicalProfile b) \<and>
       primaryStyle (communication a) = ''Direct'' \<and> primaryStyle (communication b) = ''Direct'' \<and>
       emotionVsLogic (decisionMaking a) = 0.4 \<and> emotionVsLogic (decisionMaking b) = 0.6
       \<longrightarrow> calculateCompatibility a b = 0.95)"
  using introversion_values introversion_ends
  by (simp add: calculateCompatibility_factors spec_attachment_factor_def
       spec_introversion_factor_def spec_communication_factor_def spec_decision_factor_def)

text \<open>
  The scenario of the claim on two new characters, and two pairs in different buckets:
  the two ends of the scale (Secure with Secure, Direct with Direct, the same
  emotion-versus-logic value: mean of 1, 0, 1 and 1), and an Anxious, Introverted, Direct
  profile at 0.2 with an Avoidant, Extroverted, Indirect profile at 0.7 (mean of 0.3, 0.5,
  0.4 and 0.5).
\<close>

theorem C9_compatibility_mean_witness:
  "calculateCompatibility
     (createNewCharacter\<lparr>decisionMaking := \<lparr>emotionVsLogic = 0.4, pacing = ''Moderate''\<rparr>\<rparr>)
     (createNewCharacter\<lparr>decisionMaking := \<lparr>emotionVsLogic = 0.6, pacing = ''Fast''\<rparr>\<rparr>) = 0.95
   \<and> calculateCompatibility
       (createNewCharacter\<lparr>psychologicalProfile :=
          \<lparr>introversionExtroversion = ''Highly Introverted'', attachmentStyle = ''Secure'',
           trustLevel = ''Neutral'', likelyVulnerabilities = []\<rparr>\<rparr>)
       (createNewCharacter\<lparr>psychologicalProfile :=
          \<lparr>introversionExtroversion = ''Highly Extroverted'', attachmentStyle = ''Secure'',
           trustLevel = ''Neutral'', likelyVulnerabilities = []\<rparr>\<rparr>) = 0.75
   \<and> calculateCompatibility
       (createNewCharacter
          \<lparr>psychologicalProfile :=
             \<lparr>introversionExtroversion = ''Introverted'', attachmentStyle = ''Anxious'',
              trustLevel = ''Neutral'', likelyVulnerabilities = []\<rparr>,
           decisionMaking := \<lparr>emotionVsLogic = 0.2, pacing = ''Slow''\<rparr>\<rparr>)
       (createNewCharacter
          \<lparr>psychologicalProfile :=
             \<lparr>introversionExtroversion = ''Extroverted'', attachmentStyle = ''Avoidant'',
              trustLevel = ''Neutral'', likelyVulnerabilities = []\<rparr>,
           communication := \<lparr>primaryStyle = ''Indirect''\<rparr>,
           decisionMaking := \<lparr>emotionVsLogic = 0.7, pacing = ''Fast''\<rparr>\<rparr>) = 0.425"
proof -
  let ?a1 = "createNewCharacter\<lparr>decisionMaking := \<lparr>emotionVsLogic = 0.4, pacing = ''Moderate''\<rparr>\<rparr>"
  let ?b1 = "createNewCharacter\<lparr>decisionMaking := \<lparr>emotionVsLogic = 0.6, pacing = ''Fast''\<rparr>\<rparr>"
  let ?a2 = "createNewCharacter\<lparr>psychologicalProfile :=
          \<lparr>introversionExtroversion = ''Highly Introverted'', attachmentStyle = ''Secure'',
           trustLevel = ''Neutral'', likelyVulnerabilities = []\<rparr>\<rparr>"
  let ?b2 = "createNewCharacter\<lparr>psychologicalProfile :=
          \<lparr>introversionExtroversion = ''Highly Extroverted'', attachmentStyle = ''Secure'',
           trustLevel = ''Neutral'', likelyVulnerabilities = []\<rparr>\<rparr>"
  let ?a3 = "createNewCharacter
          \<lparr>psychologicalProfile :=
             \<lparr>introversionExtroversion = ''Introverted'', attachmentStyle = ''Anxious'',
              trustLevel = ''Neutral'', likelyVulnerabilities = []\<rparr>,
           decisionMaking := \<lparr>emotionVsLogic = 0.2, pacing = ''Slow''\<rparr>\<rparr>"
  let ?b3 = "createNewCharacter
          \<lparr>psychologicalProfile :=
             \<lparr>introversionExtroversion = ''Extroverted'', attachmentStyle = ''Avoidant'',
              trustLevel = ''Neutral'', likelyVulnerabilities = []\<rparr>,
           communication := \<lparr>primaryStyle = ''Indirect''\<rparr>,
           decisionMaking := \<lparr>emotionVsLogic = 0.7, pacing = ''Fast''\<rparr>\<rparr>"
  have one: "calculateCompatibility ?a1 ?b1 = 0.95"
    using C9_compatibility_mean [of ?a1 ?b1] by (simp add: createNewCharacter_def)
  have two: "calculateCompatibility ?a2 ?b2 = 0.75"
    using C9_compatibility_mean [of ?a2 ?b2]
    by (simp add: createNewCharacter_def spec_attachment_factor_def spec_introversion_factor_def
         spec_introversion_ordinal_def spec_introversion_scale_def spec_communication_factor_def
         spec_decision_factor_def)
  have three: "calculateCompatibility ?a3 ?b3 = 0.425"
    using C9_compatibility_mean [of ?a3 ?b3]
    by (simp add: createNewCharacter_def spec_attachment_factor_def spec_introversion_factor_def
         spec_introversion_ordinal_def spec_introversion_scale_def spec_communication_factor_def
         spec_decision_factor_def)
  from one two three show ?thesis by blast
qed

text \<open>
  C10. \<open>calculateCompatibility\<close> is symmetric: for every pair of profiles the score of
  \<open>(a, b)\<close> is the score of \<open>(b, a)\<close>, since each of the four factors is.
\<close>

theorem C10_compatibility_symmetric:
  "calculateCompatibility a b = calculateCompatibility b a"
  unfolding calculateCompatibility_factors
  by (simp add: spec_attachment_factor_sym [of "attachmentStyle (psychologicalProfile a)"]
       spec_introversion_factor_sym [of "introversionExtroversion (psychologicalProfile a)"]
       spec_communication_factor_sym [of "primaryStyle (communication a)"]
       spec_decision_factor_sym [of "emotionVsLogic (decisionMaking a)"])

end
